theory Spec2Isabelle
  imports Complex_Main "HOL-Library.Sublist" "HOL-Library.Multiset"
begin

section \<open>Python values\<close>

text \<open>
  A Python \<^verbatim>\<open>str\<close> is a sequence of Unicode code points, and \<^verbatim>\<open>len\<close> counts code
  points, so a string is a list of natural numbers. \<open>asc\<close> turns an ASCII literal into
  such a list; the Chinese literals of the source are written as their code points.
  A \<^verbatim>\<open>float\<close> is read as the real number it stands for (no NaN, no infinity), and
  arithmetic on floats as arithmetic on the reals, except where its rounding decides a
  result: the mean in \<open>calculate_statistics\<close> is computed by operations that are a
  parameter.
  A \<^verbatim>\<open>datetime\<close> is a count of microseconds together with the flag that says whether
  it carries a time zone: for an aware datetime the count is its instant on the UTC time
  line, for a naive one it is the wall-clock reading, which the functions below take as UTC
  (\<^verbatim>\<open>replace(tzinfo=timezone.utc)\<close>).
\<close>

type_synonym codepoint = nat
type_synonym pystr = "codepoint list"

record datetime =
  micros :: int
  tz_aware :: bool

definition asc :: "string \<Rightarrow> pystr" where
  "asc s = map of_char s"

text \<open>
  The string methods that depend on the Unicode tables of the Python runtime are taken as
  a parameter: \<^verbatim>\<open>str.lower\<close>, and the character classes behind \<^verbatim>\<open>str.strip\<close>,
  \<^verbatim>\<open>str.split\<close> and \<^verbatim>\<open>str.isdigit\<close>. \<open>ascii_runtime\<close> is what CPython computes on
  ASCII text.
\<close>

record runtime =
  str_lower :: "pystr \<Rightarrow> pystr"
  ch_isspace :: "codepoint \<Rightarrow> bool"
  ch_isdigit :: "codepoint \<Rightarrow> bool"

definition ascii_lower :: "codepoint \<Rightarrow> codepoint" where
  "ascii_lower c = (if 65 \<le> c \<and> c \<le> 90 then c + 32 else c)"

definition ascii_runtime :: runtime where
  "ascii_runtime =
     \<lparr> str_lower = map ascii_lower,
       ch_isspace = (\<lambda>c. (9 \<le> c \<and> c \<le> 13) \<or> (28 \<le> c \<and> c \<le> 32)),
       ch_isdigit = (\<lambda>c. 48 \<le> c \<and> c \<le> 57) \<rparr>"

datatype error = AttributeError | TypeError | ExtractorError

text \<open>
  Values of fields typed \<^verbatim>\<open>Any\<close>. Python's \<^verbatim>\<open>int\<close>, \<^verbatim>\<open>float\<close> and \<^verbatim>\<open>bool\<close>
  compare and add with each other and are all \<open>VNum\<close>. \<open>VObj\<close> is an object with its
  data attributes, \<open>VDict\<close> a dictionary with its items in insertion order, \<open>VMethod\<close>
  a bound method, which is what reading an attribute gives for the name of a method.
\<close>

datatype pyval =
    VNone
  | VNum real
  | VStr pystr
  | VTime datetime
  | VList "pyval list"
  | VDict "(pystr \<times> pyval) list"
  | VObj "(pystr \<times> pyval) list"
  | VMethod pystr

text \<open>\<^verbatim>\<open>d.get(key, default)\<close> on a dictionary.\<close>

definition dict_get :: "(pystr \<times> pyval) list \<Rightarrow> pystr \<Rightarrow> pyval \<Rightarrow> pyval" where
  "dict_get d k dflt = (case map_of d k of Some v \<Rightarrow> v | None \<Rightarrow> dflt)"

text \<open>Exceptions are values: \<open>Inl\<close> is a raised exception, \<open>ebind\<close> sequences two steps.\<close>

definition ebind :: "error + 'a \<Rightarrow> ('a \<Rightarrow> error + 'b) \<Rightarrow> error + 'b" where
  "ebind m f = (case m of Inl e \<Rightarrow> Inl e | Inr x \<Rightarrow> f x)"

section \<open>The schemas (models/schemas.py)\<close>

record keyword =
  kw_term :: pystr
  kw_score :: real
  kw_type :: "pystr option"

record entity =
  ent_text :: pystr
  ent_label :: pystr
  ent_confidence :: real

record processed_content =
  content_id :: pystr
  title :: pystr
  cleaned_content :: pystr
  summary :: "pystr option"
  keywords_list :: "keyword list"
  entities :: "entity list"
  categories :: "pystr list"
  tags :: "pystr list"
  importance_score :: real
  quality_score :: real
  sentiment :: "(pystr \<times> pyval) list option"
  source :: "pystr option"
  author :: "pystr option"
  publish_time :: "datetime option"
  url :: "pystr option"
  extracted_links :: "pystr list"
  source_authority :: real
  engagement_metrics :: "(pystr \<times> pyval) list option"
  processing_time :: "datetime option"

section \<open>ContentScorer (content\_scorer.py)\<close>

text \<open>
  \<open>calculate_importance\<close> reads its argument by attribute and probes two attributes with
  \<^verbatim>\<open>hasattr\<close>, so the argument is an object on which each attribute is present or
  absent; reading an absent attribute raises \<open>AttributeError\<close>.
\<close>

datatype 'a attr = Absent | Present 'a

definition getattr :: "'a attr \<Rightarrow> error + 'a" where
  "getattr a = (case a of Absent \<Rightarrow> Inl AttributeError | Present x \<Rightarrow> Inr x)"

record content_object =
  attr_title :: "pystr attr"
  attr_source :: "pystr option attr"
  attr_source_authority :: "real attr"
  attr_publish_time :: "datetime option attr"
  attr_keywords :: "keyword list attr"
  attr_categories :: "pystr list attr"
  attr_entities :: "entity list attr"
  attr_engagement_metrics :: "(pystr \<times> pyval) list option attr"
  attr_quality_score :: "real attr"

definition as_object :: "processed_content \<Rightarrow> content_object" where
  "as_object c =
     \<lparr> attr_title = Present (title c),
       attr_source = Present (source c),
       attr_source_authority = Present (source_authority c),
       attr_publish_time = Present (publish_time c),
       attr_keywords = Present (keywords_list c),
       attr_categories = Present (categories c),
       attr_entities = Present (entities c),
       attr_engagement_metrics = Present (engagement_metrics c),
       attr_quality_score = Present (quality_score c) \<rparr>"

subsection \<open>Configuration tables, in the order of the dictionary literals\<close>

definition authority_sources :: "(pystr \<times> real) list" where
  "authority_sources =
     [(asc ''openai'', 1.0), (asc ''google'', 0.95), (asc ''microsoft'', 0.95),
      (asc ''meta'', 0.9), (asc ''deepmind'', 0.95), (asc ''anthropic'', 0.9),
      (asc ''nvidia'', 0.85),
      (asc ''techcrunch'', 0.8), (asc ''verge'', 0.75), (asc ''wired'', 0.75),
      (asc ''mit technology review'', 0.85), (asc ''ieee'', 0.85),
      (asc ''arxiv'', 0.9), (asc ''nature'', 0.95), (asc ''science'', 0.95),
      ([26032, 21326, 31038], 0.85), ([20154, 27665, 26085, 25253], 0.85),
      ([20013, 31185, 38498], 0.9), ([28165, 21326, 22823, 23398], 0.85),
      ([21271, 20140, 22823, 23398], 0.85)]"

definition important_keywords :: "(pystr \<times> real) list" where
  "important_keywords =
     [(asc ''breakthrough'', 1.0), (asc ''revolutionary'', 0.9),
      (asc ''state-of-the-art'', 0.85), (asc ''novel'', 0.8), (asc ''significant'', 0.75),
      ([31361, 30772], 1.0), ([38761, 21629, 24615], 0.9), ([37325, 22823], 0.85),
      ([21019, 26032], 0.8), ([39318, 27425], 0.85), ([26368, 26032], 0.7)]"

definition ai_keywords :: "pystr list" where
  "ai_keywords =
     [asc ''ai'', asc ''artificial intelligence'', [20154, 24037, 26234, 33021],
      asc ''machine learning'', [26426, 22120, 23398, 20064], asc ''deep learning'',
      [28145, 24230, 23398, 20064], asc ''neural'', [31070, 32463]]"

definition ai_categories :: "pystr list" where
  "ai_categories =
     [[25216, 26415], [30740, 31350], asc ''AI'', [20154, 24037, 26234, 33021],
      asc ''Technology'', asc ''Research'']"

definition unique_terms :: "pystr list" where
  "unique_terms =
     [[39318, 27425], asc ''first'', [21019, 26032], asc ''innovative'', [31361, 30772],
      asc ''breakthrough'', [26032, 22411], asc ''novel'', [29420, 23478], asc ''exclusive'',
      [21407, 21019], asc ''original'']"

subsection \<open>Timeliness\<close>

definition hours :: "int \<Rightarrow> int" where
  "hours n = n * 3600000000"

definition days :: "int \<Rightarrow> int" where
  "days n = n * 86400000000"

text \<open>
  The instant \<^verbatim>\<open>datetime.now(timezone.utc)\<close> is the argument \<open>now\<close>. A datetime
  object is never falsy, so the first test only catches \<^verbatim>\<open>None\<close>; a naive publish time
  is made aware first, and the subtraction and comparisons of aware datetimes do not
  raise, so the handler of the source has no branch here.
\<close>

definition calculate_timeliness :: "int \<Rightarrow> datetime option \<Rightarrow> real" where
  "calculate_timeliness now pt =
     (case pt of
        None \<Rightarrow> 0.3
      | Some p \<Rightarrow>
          (let age = now - micros p in
           if age < hours 1 then 1.0
           else if age < hours 6 then 0.9
           else if age < days 1 then 0.8
           else if age < days 3 then 0.6
           else if age < days 7 then 0.4
           else if age < days 30 then 0.2
           else 0.1))"

subsection \<open>Authority\<close>

text \<open>The loop over the table returns at the first key contained in the lowered source.\<close>

fun authority_lookup :: "(pystr \<times> real) list \<Rightarrow> pystr \<Rightarrow> real option" where
  "authority_lookup [] s = None"
| "authority_lookup ((k, score) # rest) s =
     (if sublist k s then Some score else authority_lookup rest s)"

definition calculate_authority :: "runtime \<Rightarrow> pystr option \<Rightarrow> real \<Rightarrow> real" where
  "calculate_authority rt src base_authority =
     (case src of
        None \<Rightarrow> base_authority
      | Some s \<Rightarrow>
          if s = [] then base_authority
          else (case authority_lookup authority_sources (str_lower rt s) of
                  Some score \<Rightarrow> max score base_authority
                | None \<Rightarrow> if base_authority > 0 then base_authority else 0.5))"

subsection \<open>Relevance, engagement, uniqueness\<close>

text \<open>\<^verbatim>\<open>[kw.term.lower() for kw in keywords]\<close>\<close>

definition keyword_terms :: "runtime \<Rightarrow> keyword list \<Rightarrow> pystr list" where
  "keyword_terms rt kws = map (\<lambda>kw. str_lower rt (kw_term kw)) kws"

definition calculate_relevance :: "runtime \<Rightarrow> keyword list \<Rightarrow> pystr list \<Rightarrow> real" where
  "calculate_relevance rt kws cats =
     (let score0 = 0.5;
          ai_keyword_count =
            length (filter (\<lambda>t. \<exists>ai_kw \<in> set ai_keywords. sublist ai_kw t) (keyword_terms rt kws));
          score1 = (if kws \<noteq> [] \<and> ai_keyword_count > 0
                    then score0 + min 0.3 (real ai_keyword_count * 0.1) else score0);
          score2 = (if cats \<noteq> [] \<and> (\<exists>cat \<in> set cats. cat \<in> set ai_categories)
                    then score1 + 0.2 else score1)
      in min 1.0 score2)"

text \<open>
  \<^verbatim>\<open>math.log10(max(1, v))\<close>: the comparison inside \<^verbatim>\<open>max\<close> raises \<open>TypeError\<close> on a
  value that is not a number, and the handler of \<open>calculate_engagement\<close> turns it into 0.5.
\<close>

definition log10_max1 :: "pyval \<Rightarrow> error + real" where
  "log10_max1 v = (case v of VNum x \<Rightarrow> Inr (log 10 (max 1 x)) | _ \<Rightarrow> Inl TypeError)"

definition engagement_try :: "(pystr \<times> pyval) list \<Rightarrow> error + real" where
  "engagement_try metrics =
     ebind (log10_max1 (dict_get metrics (asc ''views'') (VNum 0))) (\<lambda>lv.
     ebind (log10_max1 (dict_get metrics (asc ''shares'') (VNum 0))) (\<lambda>ls.
     ebind (log10_max1 (dict_get metrics (asc ''comments'') (VNum 0))) (\<lambda>lc.
     ebind (log10_max1 (dict_get metrics (asc ''likes'') (VNum 0))) (\<lambda>ll.
       (let view_score = lv / 6; share_score = ls / 4;
            comment_score = lc / 3; like_score = ll / 5;
            engagement_score =
              view_score * 0.2 + share_score * 0.3 + comment_score * 0.3 + like_score * 0.2
        in Inr (max 0.0 (min 1.0 engagement_score)))))))"

definition calculate_engagement :: "(pystr \<times> pyval) list option \<Rightarrow> real" where
  "calculate_engagement metrics =
     (case metrics of
        None \<Rightarrow> 0.5
      | Some m \<Rightarrow>
          if m = [] then 0.5
          else (case engagement_try m of Inl e \<Rightarrow> 0.5 | Inr s \<Rightarrow> s))"

definition calculate_uniqueness :: "runtime \<Rightarrow> keyword list \<Rightarrow> real" where
  "calculate_uniqueness rt kws =
     (if kws = [] then 0.5
      else min 1.0
             (fold (\<lambda>t unique_score.
                      if \<exists>kw_term \<in> set (keyword_terms rt kws). sublist t kw_term
                      then unique_score + 0.1 else unique_score)
                   unique_terms 0.5))"

subsection \<open>Boost factor and total\<close>

definition title_boost :: "pystr \<Rightarrow> real" where
  "title_boost title_lower =
     fold (\<lambda>(keyword, factor) boost.
             if sublist keyword title_lower then max boost (1.0 + (factor - 1.0) * 0.5)
             else boost)
          important_keywords 1.0"

definition calculate_boost_factor :: "runtime \<Rightarrow> content_object \<Rightarrow> error + real" where
  "calculate_boost_factor rt c =
     ebind (getattr (attr_title c)) (\<lambda>t.
       (let boost1 = (if t \<noteq> [] then title_boost (str_lower rt t) else 1.0);
            boost2 = (case attr_entities c of
                        Present es \<Rightarrow>
                          if es \<noteq> [] \<and> length (filter (\<lambda>e. ent_label e = asc ''ORG'') es) \<ge> 3
                          then boost1 * 1.1 else boost1
                      | Absent \<Rightarrow> boost1);
            boost3 = (case attr_quality_score c of
                        Present q \<Rightarrow> if q > 0.8 then boost2 * 1.05 else boost2
                      | Absent \<Rightarrow> boost2)
        in Inr boost3))"

text \<open>
  The body of the \<^verbatim>\<open>try\<close> block of \<open>calculate_importance\<close>. The weights are those of
  \<^verbatim>\<open>self.weights\<close>, added in the order of the \<^verbatim>\<open>scores\<close> dictionary.
\<close>

definition importance_try :: "runtime \<Rightarrow> int \<Rightarrow> content_object \<Rightarrow> error + real" where
  "importance_try rt now c =
     ebind (getattr (attr_publish_time c)) (\<lambda>pt.
     ebind (getattr (attr_source c)) (\<lambda>src.
     ebind (getattr (attr_source_authority c)) (\<lambda>base.
     ebind (getattr (attr_keywords c)) (\<lambda>kws.
     ebind (getattr (attr_categories c)) (\<lambda>cats.
     ebind (getattr (attr_engagement_metrics c)) (\<lambda>metrics.
       (let timeliness = calculate_timeliness now pt;
            authority = calculate_authority rt src base;
            relevance = calculate_relevance rt kws cats;
            engagement = calculate_engagement metrics;
            quality = (case attr_quality_score c of Present q \<Rightarrow> q | Absent \<Rightarrow> 0.5);
            uniqueness = calculate_uniqueness rt kws;
            total_score = 0.0 + timeliness * 0.25 + authority * 0.20 + relevance * 0.20
                          + engagement * 0.15 + quality * 0.10 + uniqueness * 0.10
        in ebind (calculate_boost_factor rt c) (\<lambda>boost_factor.
             Inr (max 0.0 (min 1.0 (total_score * boost_factor)))))))))))"

definition calculate_importance :: "runtime \<Rightarrow> int \<Rightarrow> content_object \<Rightarrow> real" where
  "calculate_importance rt now c =
     (case importance_try rt now c of Inl e \<Rightarrow> 0.5 | Inr s \<Rightarrow> s)"

section \<open>ContentAggregator (content\_aggregator.py)\<close>

subsection \<open>Sorting\<close>

text \<open>
  \<^verbatim>\<open>sorted(xs, key=k, reverse=True)\<close> and \<^verbatim>\<open>xs.sort(key=k, reverse=True)\<close>: CPython
  reverses the list, sorts it stably by ascending key and reverses the result.
\<close>

definition sorted_reverse :: "('a \<Rightarrow> real) \<Rightarrow> 'a list \<Rightarrow> 'a list" where
  "sorted_reverse key xs = rev (sort_key key (rev xs))"

definition sort_by_importance :: "processed_content list \<Rightarrow> processed_content list" where
  "sort_by_importance contents = sorted_reverse importance_score contents"

subsection \<open>Grouping by category\<close>

text \<open>
  A \<^verbatim>\<open>defaultdict(list)\<close> is a list of (key, group) pairs in insertion order;
  \<open>group_append\<close> is \<^verbatim>\<open>d[k].append(x)\<close>.
\<close>

definition group_append :: "'k \<Rightarrow> 'a \<Rightarrow> ('k \<times> 'a list) list \<Rightarrow> ('k \<times> 'a list) list" where
  "group_append k x groups =
     (if k \<in> fst ` set groups
      then map (\<lambda>(k', g). if k' = k then (k', g @ [x]) else (k', g)) groups
      else groups @ [(k, [x])])"

definition uncategorized :: pystr where
  "uncategorized = [26410, 20998, 31867]"

definition categorize_step ::
  "processed_content \<Rightarrow> (pystr \<times> processed_content list) list
     \<Rightarrow> (pystr \<times> processed_content list) list" where
  "categorize_step content categorized =
     (if categories content \<noteq> []
      then fold (\<lambda>category. group_append category content) (categories content) categorized
      else group_append uncategorized content categorized)"

definition aggregate_by_category ::
  "processed_content list \<Rightarrow> (pystr \<times> processed_content list) list" where
  "aggregate_by_category contents =
     map (\<lambda>(category, g). (category, sorted_reverse importance_score g))
         (fold categorize_step contents [])"

subsection \<open>Deduplication by title\<close>

text \<open>\<^verbatim>\<open>s.strip()\<close> removes the white space at both ends.\<close>

definition py_strip :: "runtime \<Rightarrow> pystr \<Rightarrow> pystr" where
  "py_strip rt s = rev (dropWhile (ch_isspace rt) (rev (dropWhile (ch_isspace rt) s)))"

definition title_key :: "runtime \<Rightarrow> processed_content \<Rightarrow> pystr" where
  "title_key rt content = py_strip rt (str_lower rt (title content))"

fun dedup_loop ::
  "runtime \<Rightarrow> processed_content list \<Rightarrow> pystr set \<Rightarrow> processed_content list
     \<Rightarrow> processed_content list" where
  "dedup_loop rt [] seen_titles unique_contents = unique_contents"
| "dedup_loop rt (content # rest) seen_titles unique_contents =
     (let title_lower = title_key rt content in
      if title_lower \<notin> seen_titles
      then dedup_loop rt rest (insert title_lower seen_titles) (unique_contents @ [content])
      else dedup_loop rt rest seen_titles unique_contents)"

definition deduplicate_by_title ::
  "runtime \<Rightarrow> processed_content list \<Rightarrow> real \<Rightarrow> processed_content list" where
  "deduplicate_by_title rt contents similarity_threshold =
     (if contents = [] then [] else dedup_loop rt contents {} [])"

subsection \<open>Statistics\<close>

record date_range =
  dr_start :: datetime
  dr_end :: datetime
  dr_days :: int

record statistics =
  total_count :: nat
  avg_importance_score :: real
  category_stats :: "(pystr \<times> nat) list"
  source_stats :: "(pystr \<times> nat) list"
  sentiment_stats :: "(pyval \<times> nat) list"
  date_range_of :: "date_range option"

text \<open>\<^verbatim>\<open>d[k] += 1\<close> on a \<^verbatim>\<open>defaultdict(int)\<close>.\<close>

definition count_bump :: "'k \<Rightarrow> ('k \<times> nat) list \<Rightarrow> ('k \<times> nat) list" where
  "count_bump k counts =
     (if k \<in> fst ` set counts
      then map (\<lambda>(k', n). if k' = k then (k', n + 1) else (k', n)) counts
      else counts @ [(k, 1)])"

text \<open>
  \<^verbatim>\<open>round(x, 3)\<close> of a double \<open>x\<close>: the multiple of 1/1000 nearest to the exact value
  of \<open>x\<close>, a tie going to the even one. The double that is returned stands for that
  decimal.
\<close>

definition round_half_even :: "real \<Rightarrow> int" where
  "round_half_even x =
     (let f = \<lfloor>x\<rfloor>; d = x - of_int f in
      if d < 1/2 then f else if d > 1/2 then f + 1 else if even f then f else f + 1)"

definition py_round3 :: "real \<Rightarrow> real" where
  "py_round3 x = of_int (round_half_even (x * 1000)) / 1000"

text \<open>
  Lists, dictionaries and model objects cannot be dictionary keys: using one raises
  \<open>TypeError\<close>.
\<close>

fun hashable :: "pyval \<Rightarrow> bool" where
  "hashable (VList xs) = False"
| "hashable (VDict d) = False"
| "hashable (VObj a) = False"
| "hashable v = True"

definition unknown_source :: pystr where
  "unknown_source = [26410, 30693, 26469, 28304]"

definition source_or_unknown :: "pystr option \<Rightarrow> pystr" where
  "source_or_unknown src = (case src of None \<Rightarrow> unknown_source
                            | Some s \<Rightarrow> if s = [] then unknown_source else s)"

definition sentiment_step ::
  "processed_content \<Rightarrow> (pyval \<times> nat) list \<Rightarrow> error + (pyval \<times> nat) list" where
  "sentiment_step content stats =
     (case sentiment content of
        None \<Rightarrow> Inr stats
      | Some d \<Rightarrow>
          if d = [] then Inr stats
          else (let label = dict_get d (asc ''label'') (VStr (asc ''neutral'')) in
                if hashable label then Inr (count_bump label stats) else Inl TypeError))"

fun sentiment_loop ::
  "processed_content list \<Rightarrow> (pyval \<times> nat) list \<Rightarrow> error + (pyval \<times> nat) list" where
  "sentiment_loop [] stats = Inr stats"
| "sentiment_loop (content # rest) stats =
     ebind (sentiment_step content stats) (sentiment_loop rest)"

text \<open>The time of a document: its publish time, else its processing time, else none.\<close>

definition content_times :: "processed_content list \<Rightarrow> datetime list" where
  "content_times contents =
     concat (map (\<lambda>content.
                    case publish_time content of
                      Some t \<Rightarrow> [t]
                    | None \<Rightarrow> (case processing_time content of Some t \<Rightarrow> [t] | None \<Rightarrow> []))
                 contents)"

text \<open>
  Comparing a naive with an aware datetime raises \<open>TypeError\<close>. \<^verbatim>\<open>min\<close> and
  \<^verbatim>\<open>max\<close> keep the first extreme element and compare every later one with it.
\<close>

definition dt_less :: "datetime \<Rightarrow> datetime \<Rightarrow> error + bool" where
  "dt_less a b = (if tz_aware a = tz_aware b then Inr (micros a < micros b) else Inl TypeError)"

fun min_time :: "datetime \<Rightarrow> datetime list \<Rightarrow> error + datetime" where
  "min_time m [] = Inr m"
| "min_time m (t # ts) = ebind (dt_less t m) (\<lambda>b. min_time (if b then t else m) ts)"

fun max_time :: "datetime \<Rightarrow> datetime list \<Rightarrow> error + datetime" where
  "max_time m [] = Inr m"
| "max_time m (t # ts) = ebind (dt_less m t) (\<lambda>b. max_time (if b then t else m) ts)"

text \<open>\<^verbatim>\<open>(max_time - min_time).days\<close> is the floor of the difference in days.\<close>

definition make_date_range :: "datetime list \<Rightarrow> error + date_range option" where
  "make_date_range time_list =
     (case time_list of
        [] \<Rightarrow> Inr None
      | t # ts \<Rightarrow>
          ebind (min_time t ts) (\<lambda>lo.
          ebind (max_time t ts) (\<lambda>hi.
            Inr (Some \<lparr> dr_start = lo, dr_end = hi,
                        dr_days = (micros hi - micros lo) div 86400000000 + 1 \<rparr>))))"

text \<open>
  The mean is computed in floating point before it is rounded to 3 decimal places: the
  builtin \<^verbatim>\<open>sum\<close> of the scores and its quotient by the count are doubles, the exact
  results rounded as the floating-point unit and the Python version round them. On which
  side of a tie the mean falls depends on that rounding, so the two operations are a
  parameter. \<open>exact_arith\<close> is what they compute where the exact sum and quotient are
  doubles themselves.
\<close>

record float_arith =
  float_sum :: "real list \<Rightarrow> real"
  float_div :: "real \<Rightarrow> real \<Rightarrow> real"

definition exact_arith :: float_arith where
  "exact_arith = \<lparr> float_sum = sum_list, float_div = (\<lambda>a b. a / b) \<rparr>"

definition calculate_statistics ::
  "float_arith \<Rightarrow> processed_content list \<Rightarrow> error + statistics" where
  "calculate_statistics fa contents =
     (if contents = []
      then Inr \<lparr> total_count = 0, avg_importance_score = 0, category_stats = [],
                 source_stats = [], sentiment_stats = [], date_range_of = None \<rparr>
      else
        (let total = length contents;
             avg_importance =
               float_div fa (float_sum fa (map importance_score contents)) (real total);
             cat_stats = fold (\<lambda>content st. fold count_bump (categories content) st)
                              contents [];
             src_stats = fold (\<lambda>content. count_bump (source_or_unknown (source content)))
                              contents []
         in ebind (sentiment_loop contents []) (\<lambda>sent_stats.
            ebind (make_date_range (content_times contents)) (\<lambda>dr.
              Inr \<lparr> total_count = total, avg_importance_score = py_round3 avg_importance,
                    category_stats = cat_stats, source_stats = src_stats,
                    sentiment_stats = sent_stats, date_range_of = dr \<rparr>))))"

subsection \<open>Filters\<close>

text \<open>The document as the object whose attributes \<^verbatim>\<open>getattr\<close> reads.\<close>

definition opt_str :: "pystr option \<Rightarrow> pyval" where
  "opt_str s = (case s of None \<Rightarrow> VNone | Some x \<Rightarrow> VStr x)"

definition opt_time :: "datetime option \<Rightarrow> pyval" where
  "opt_time t = (case t of None \<Rightarrow> VNone | Some x \<Rightarrow> VTime x)"

definition opt_dict :: "(pystr \<times> pyval) list option \<Rightarrow> pyval" where
  "opt_dict d = (case d of None \<Rightarrow> VNone | Some x \<Rightarrow> VDict x)"

definition keyword_obj :: "keyword \<Rightarrow> pyval" where
  "keyword_obj kw =
     VObj [(asc ''term'', VStr (kw_term kw)), (asc ''score'', VNum (kw_score kw)),
           (asc ''type'', opt_str (kw_type kw))]"

definition entity_obj :: "entity \<Rightarrow> pyval" where
  "entity_obj e =
     VObj [(asc ''text'', VStr (ent_text e)), (asc ''label'', VStr (ent_label e)),
           (asc ''confidence'', VNum (ent_confidence e))]"

definition content_obj :: "processed_content \<Rightarrow> pyval" where
  "content_obj c =
     VObj [(asc ''content_id'', VStr (content_id c)),
           (asc ''title'', VStr (title c)),
           (asc ''cleaned_content'', VStr (cleaned_content c)),
           (asc ''summary'', opt_str (summary c)),
           (asc ''keywords'', VList (map keyword_obj (keywords_list c))),
           (asc ''entities'', VList (map entity_obj (entities c))),
           (asc ''categories'', VList (map VStr (categories c))),
           (asc ''tags'', VList (map VStr (tags c))),
           (asc ''importance_score'', VNum (importance_score c)),
           (asc ''quality_score'', VNum (quality_score c)),
           (asc ''sentiment'', opt_dict (sentiment c)),
           (asc ''source'', opt_str (source c)),
           (asc ''author'', opt_str (author c)),
           (asc ''publish_time'', opt_time (publish_time c)),
           (asc ''url'', opt_str (url c)),
           (asc ''extracted_links'', VList (map VStr (extracted_links c))),
           (asc ''source_authority'', VNum (source_authority c)),
           (asc ''engagement_metrics'', opt_dict (engagement_metrics c)),
           (asc ''processing_time'', opt_time (processing_time c))]"

text \<open>\<^verbatim>\<open>s.split(sep)\<close> for a separator of one character.\<close>

fun split_on :: "'a \<Rightarrow> 'a list \<Rightarrow> 'a list list" where
  "split_on sep [] = [[]]"
| "split_on sep (x # xs) =
     (if x = sep then [] # split_on sep xs
      else (case split_on sep xs of [] \<Rightarrow> [[x]] | l # ls \<Rightarrow> (x # l) # ls))"

text \<open>
  Besides its data a value has the attributes of its class: the methods and properties of
  \<^verbatim>\<open>dict\<close>, \<^verbatim>\<open>list\<close>, \<^verbatim>\<open>str\<close>, \<^verbatim>\<open>float\<close>, \<^verbatim>\<open>datetime\<close> and of the base
  class of the models. \<^verbatim>\<open>hasattr\<close> holds for them too, and which names they are
  depends on the versions of Python and of the model library, so they are a parameter:
  the value that reading the attribute gives, or \<open>None\<close> when the class has no attribute
  of that name. \<open>no_class_attrs\<close> is the answer for every name that is not one of them.
\<close>

type_synonym class_attrs = "pyval \<Rightarrow> pystr \<Rightarrow> pyval option"

definition no_class_attrs :: class_attrs where
  "no_class_attrs v name = None"

text \<open>
  \<^verbatim>\<open>getattr(value, part)\<close> where \<^verbatim>\<open>hasattr(value, part)\<close> holds: a data attribute of
  an object, else an attribute of the class.
\<close>

definition py_getattr :: "class_attrs \<Rightarrow> pyval \<Rightarrow> pystr \<Rightarrow> pyval option" where
  "py_getattr ca v part =
     (case v of
        VObj attrs \<Rightarrow> (case map_of attrs part of Some w \<Rightarrow> Some w | None \<Rightarrow> ca v part)
      | _ \<Rightarrow> ca v part)"

text \<open>
  The loop of \<open>get_nested_value\<close>: an attribute if the value has one of that name; else,
  for a dictionary, \<^verbatim>\<open>value.get(part)\<close>, which is \<^verbatim>\<open>None\<close> for a missing key; else
  the loop ends with the default.
\<close>

fun nested_loop :: "class_attrs \<Rightarrow> pyval \<Rightarrow> pystr list \<Rightarrow> pyval \<Rightarrow> pyval" where
  "nested_loop ca v [] dflt = v"
| "nested_loop ca v (part # parts) dflt =
     (case py_getattr ca v part of
        Some w \<Rightarrow> nested_loop ca w parts dflt
      | None \<Rightarrow>
          (case v of
             VDict d \<Rightarrow> nested_loop ca (dict_get d part VNone) parts dflt
           | _ \<Rightarrow> dflt))"

definition get_nested_value :: "class_attrs \<Rightarrow> pyval \<Rightarrow> pystr \<Rightarrow> pyval \<Rightarrow> pyval" where
  "get_nested_value ca obj path dflt = nested_loop ca obj (split_on 46 path) dflt"

text \<open>
  Python's \<^verbatim>\<open><=\<close>: numbers, strings (by code point), datetimes of the same kind and
  lists (at the first pair of unequal elements) are ordered; every other pair raises
  \<open>TypeError\<close>, \<^verbatim>\<open>None\<close> on either side included. \<^verbatim>\<open>a >= b\<close> is \<^verbatim>\<open>b <= a\<close>.
\<close>

fun py_le :: "pyval \<Rightarrow> pyval \<Rightarrow> error + bool"
  and py_le_list :: "pyval list \<Rightarrow> pyval list \<Rightarrow> error + bool" where
  "py_le (VNum a) (VNum b) = Inr (a \<le> b)"
| "py_le (VStr a) (VStr b) = Inr (lexordp_eq a b)"
| "py_le (VTime a) (VTime b) =
     (if tz_aware a = tz_aware b then Inr (micros a \<le> micros b) else Inl TypeError)"
| "py_le (VList xs) (VList ys) = py_le_list xs ys"
| "py_le a b = Inl TypeError"
| "py_le_list [] ys = Inr True"
| "py_le_list (x # xs) [] = Inr False"
| "py_le_list (x # xs) (y # ys) = (if x = y then py_le_list xs ys else py_le x y)"

definition py_ge :: "pyval \<Rightarrow> pyval \<Rightarrow> error + bool" where
  "py_ge a b = py_le b a"

text \<open>
  Python's \<^verbatim>\<open>x in container\<close>: membership in a list, substring of a string, key of a
  dictionary; a container that is not iterable raises \<open>TypeError\<close>.
\<close>

definition py_in :: "pyval \<Rightarrow> pyval \<Rightarrow> error + bool" where
  "py_in x container =
     (case container of
        VList ys \<Rightarrow> Inr (x \<in> set ys)
      | VStr s \<Rightarrow> (case x of VStr t \<Rightarrow> Inr (sublist t s) | _ \<Rightarrow> Inl TypeError)
      | VDict d \<Rightarrow>
          (if hashable x then Inr (case x of VStr k \<Rightarrow> k \<in> fst ` set d | _ \<Rightarrow> False)
           else Inl TypeError)
      | _ \<Rightarrow> Inl TypeError)"

text \<open>A list comprehension whose condition may raise, and \<^verbatim>\<open>any\<close> over a generator.\<close>

fun filter_e :: "('a \<Rightarrow> error + bool) \<Rightarrow> 'a list \<Rightarrow> error + 'a list" where
  "filter_e p [] = Inr []"
| "filter_e p (x # xs) =
     ebind (p x) (\<lambda>b. ebind (filter_e p xs) (\<lambda>ys. Inr (if b then x # ys else ys)))"

fun any_e :: "('a \<Rightarrow> error + bool) \<Rightarrow> 'a list \<Rightarrow> error + bool" where
  "any_e p [] = Inr False"
| "any_e p (x # xs) = ebind (p x) (\<lambda>b. if b then Inr True else any_e p xs)"

text \<open>One pass of the loop of \<open>apply_filters\<close>, for one (field, condition) item.\<close>

definition apply_condition ::
  "class_attrs \<Rightarrow> processed_content list \<Rightarrow> pystr \<Rightarrow> pyval
     \<Rightarrow> error + processed_content list" where
  "apply_condition ca filtered_contents field condition =
     (case condition of
        VDict cond \<Rightarrow>
          (case map_of cond (asc ''$gte'') of
             Some threshold \<Rightarrow>
               filter_e (\<lambda>c. py_ge (get_nested_value ca (content_obj c) field VNone) threshold)
                        filtered_contents
           | None \<Rightarrow>
               (case map_of cond (asc ''$lte'') of
                  Some threshold \<Rightarrow>
                    filter_e (\<lambda>c. py_le (get_nested_value ca (content_obj c) field VNone) threshold)
                             filtered_contents
                | None \<Rightarrow>
                    (case map_of cond (asc ''$in'') of
                       Some vals \<Rightarrow>
                         filter_e (\<lambda>c. py_in (get_nested_value ca (content_obj c) field VNone) vals)
                                  filtered_contents
                     | None \<Rightarrow> Inr filtered_contents)))
      | VList vals \<Rightarrow>
          filter_e (\<lambda>c. any_e (\<lambda>val. py_in val (get_nested_value ca (content_obj c) field (VList [])))
                               vals)
                   filtered_contents
      | _ \<Rightarrow>
          filter_e (\<lambda>c. Inr (get_nested_value ca (content_obj c) field VNone = condition))
                   filtered_contents)"

fun apply_filters ::
  "class_attrs \<Rightarrow> processed_content list \<Rightarrow> (pystr \<times> pyval) list
     \<Rightarrow> error + processed_content list" where
  "apply_filters ca contents [] = Inr contents"
| "apply_filters ca contents ((field, condition) # rest) =
     ebind (apply_condition ca contents field condition)
           (\<lambda>filtered. apply_filters ca filtered rest)"

section \<open>ContentCleaner (content\_cleaner.py)\<close>

definition noise_words :: "pystr list" where
  "noise_words =
     [[28857, 20987, 36825, 37324], [26597, 30475, 26356, 22810],
      [31435, 21363, 36141, 20080], [20813, 36153, 19979, 36733], [24191, 21578]]"

text \<open>\<^verbatim>\<open>text.replace(word, '')\<close>: the occurrences of the word are cut out from the left.\<close>

function remove_word :: "pystr \<Rightarrow> pystr \<Rightarrow> pystr" where
  "remove_word w [] = []"
| "remove_word w (x # xs) =
     (if w \<noteq> [] \<and> prefix w (x # xs) then remove_word w (drop (length w) (x # xs))
      else x # remove_word w xs)"
  by pat_completeness auto
termination
  by (relation "measure (\<lambda>(w, t). length t)") auto

text \<open>
  \<^verbatim>\<open>re.sub(r'([...])\1+', r'\1', text)\<close>: a run of one and the same character of the
  class becomes a single character.
\<close>

fun collapse_repeats :: "codepoint list \<Rightarrow> pystr \<Rightarrow> pystr" where
  "collapse_repeats cls (x # y # rest) =
     (if x \<in> set cls \<and> x = y then collapse_repeats cls (y # rest)
      else x # collapse_repeats cls (y # rest))"
| "collapse_repeats cls xs = xs"

text \<open>\<^verbatim>\<open>s.isdigit()\<close>: not empty, and every character is a digit.\<close>

definition py_isdigit :: "runtime \<Rightarrow> pystr \<Rightarrow> bool" where
  "py_isdigit rt s = (s \<noteq> [] \<and> list_all (ch_isdigit rt) s)"

fun py_join :: "pystr \<Rightarrow> pystr list \<Rightarrow> pystr" where
  "py_join sep [] = []"
| "py_join sep [l] = l"
| "py_join sep (l # ls) = l @ sep @ py_join sep ls"

text \<open>The test that keeps a stripped line.\<close>

definition keep_line :: "runtime \<Rightarrow> pystr \<Rightarrow> bool" where
  "keep_line rt line = (length line > 10 \<or> (line \<noteq> [] \<and> \<not> py_isdigit rt line))"

text \<open>The text after the noise words and the repeated punctuation are gone.\<close>

definition denoised :: "pystr \<Rightarrow> pystr" where
  "denoised text0 =
     collapse_repeats [46, 33, 63]
       (collapse_repeats [12290, 65281, 65311] (fold remove_word noise_words text0))"

text \<open>The list \<^verbatim>\<open>cleaned_lines\<close> at the end of the loop.\<close>

definition cleaned_lines :: "runtime \<Rightarrow> pystr \<Rightarrow> pystr list" where
  "cleaned_lines rt text0 =
     filter (keep_line rt) (map (py_strip rt) (split_on 10 (denoised text0)))"

definition remove_noise :: "runtime \<Rightarrow> pystr \<Rightarrow> pystr" where
  "remove_noise rt text0 = (if text0 = [] then [] else py_join [10] (cleaned_lines rt text0))"

section \<open>DataProcessor (data\_processor.py)\<close>

record collected_data =
  cd_data_id :: pystr
  cd_source_id :: pystr
  cd_source_type :: pystr
  cd_source :: pystr
  cd_title :: pystr
  cd_content :: "pystr option"
  cd_url :: pystr
  cd_author :: "pystr option"
  cd_publish_time :: "datetime option"
  cd_tags :: "pystr list"
  cd_collected_time :: datetime

record cleaning_result =
  cr_cleaned_content :: pystr
  cr_extracted_links :: "pystr list"
  cr_removed_elements :: "pystr list"
  cr_quality_score :: real

text \<open>
  What \<open>process_content\<close> calls and this development does not look into: the cleaner
  (built on an HTML parser; it handles its own exceptions), the extractors (built on
  word segmentation libraries; an exception of theirs is \<open>Inl\<close>), the four private helpers
  whose results only fill fields of the emitted record, the two digests as hexadecimal
  strings, and the clock.
\<close>

record collaborators =
  clean :: "pystr \<Rightarrow> cleaning_result"
  extract_keywords :: "pystr \<Rightarrow> nat \<Rightarrow> pystr \<Rightarrow> error + keyword list"
  extract_entities :: "pystr \<Rightarrow> error + entity list"
  extract_topics :: "pystr \<Rightarrow> error + pystr list"
  analyze_sentiment :: "pystr \<Rightarrow> (pystr \<times> pyval) list"
  categorize_content :: "keyword list \<Rightarrow> pystr list \<Rightarrow> pystr list \<Rightarrow> pystr list"
  merge_tags :: "pystr list \<Rightarrow> keyword list \<Rightarrow> pystr list"
  generate_summary :: "pystr \<Rightarrow> pystr"
  md5_hex :: "pystr \<Rightarrow> pystr"
  sha256_hex :: "pystr \<Rightarrow> pystr"
  utc_now :: int

text \<open>
  The cache backend: a key is present with its value and its time to live in seconds. No
  time passes between two calls, so no entry expires, and a call to a live backend does
  not raise. \<open>None\<close> is a processor built without a \<^verbatim>\<open>redis_client\<close>.
\<close>

type_synonym cache = "pystr \<Rightarrow> (pystr \<times> nat) option"

definition dedup_expire :: nat where
  "dedup_expire = 86400 * 30"

definition cache_exists :: "cache \<Rightarrow> pystr \<Rightarrow> bool" where
  "cache_exists c key = (c key \<noteq> None)"

definition cache_set :: "cache \<Rightarrow> pystr \<Rightarrow> pystr \<Rightarrow> nat \<Rightarrow> cache" where
  "cache_set c key val expire = c(key \<mapsto> (val, expire))"

text \<open>\<^verbatim>\<open>content.split()\<close>: the maximal runs of characters that are not white space.\<close>

fun split_ws :: "(codepoint \<Rightarrow> bool) \<Rightarrow> pystr \<Rightarrow> pystr \<Rightarrow> pystr list" where
  "split_ws sp cur [] = (if cur = [] then [] else [cur])"
| "split_ws sp cur (x # xs) =
     (if sp x then (if cur = [] then split_ws sp [] xs else cur # split_ws sp [] xs)
      else split_ws sp (cur @ [x]) xs)"

definition calculate_content_hash :: "collaborators \<Rightarrow> runtime \<Rightarrow> pystr \<Rightarrow> pystr" where
  "calculate_content_hash co rt content =
     (let normalized = py_join [32] (split_ws (ch_isspace rt) [] content)
      in sha256_hex co normalized)"

definition url_key :: "collaborators \<Rightarrow> pystr \<Rightarrow> pystr" where
  "url_key co u = asc ''processed_url:'' @ md5_hex co u"

definition hash_key :: "pystr \<Rightarrow> pystr" where
  "hash_key content_hash = asc ''content_hash:'' @ content_hash"

definition is_already_processed :: "collaborators \<Rightarrow> cache option \<Rightarrow> pystr \<Rightarrow> bool" where
  "is_already_processed co redis_client u =
     (case redis_client of
        None \<Rightarrow> False
      | Some c \<Rightarrow> if u = [] then False else cache_exists c (url_key co u))"

definition mark_as_processed ::
  "collaborators \<Rightarrow> cache option \<Rightarrow> pystr \<Rightarrow> pystr \<Rightarrow> cache option" where
  "mark_as_processed co redis_client u content_hash =
     (case redis_client of
        None \<Rightarrow> None
      | Some c \<Rightarrow>
          if u = [] then Some c
          else Some (cache_set (cache_set c (url_key co u) (asc ''1'') dedup_expire)
                               (hash_key content_hash) (asc ''1'') dedup_expire))"

text \<open>
  \<open>is_duplicate\<close>, the one place that looks a content hash up; \<open>process_content\<close> does
  not call it. It returns its answer and the cache after the call.
\<close>

definition is_duplicate ::
  "collaborators \<Rightarrow> runtime \<Rightarrow> cache option \<Rightarrow> pystr \<Rightarrow> bool \<times> cache option" where
  "is_duplicate co rt redis_client content =
     (case redis_client of
        None \<Rightarrow> (False, None)
      | Some c \<Rightarrow>
          (let key = hash_key (calculate_content_hash co rt content);
               ex = cache_exists c key
           in (ex, Some (if \<not> ex then cache_set c key (asc ''1'') dedup_expire else c))))"

text \<open>
  The steps of \<open>process_content\<close> after the two early returns and the cleaning, up to the
  emitted record; an exception of an extractor leaves through the handler of
  \<open>process_content\<close>.
\<close>

definition build_content ::
  "collaborators \<Rightarrow> runtime \<Rightarrow> collected_data \<Rightarrow> cleaning_result
     \<Rightarrow> error + processed_content" where
  "build_content co rt d cleaning =
     (let cleaned = cr_cleaned_content cleaning in
      ebind (extract_keywords co cleaned 20 (asc ''AI'')) (\<lambda>kws.
      ebind (extract_entities co cleaned) (\<lambda>ents.
      ebind (extract_topics co cleaned) (\<lambda>topics.
        (let sent = analyze_sentiment co cleaned;
             cats = categorize_content co kws topics (cd_tags d);
             pc = \<lparr> content_id = cd_data_id d,
                    title = cd_title d,
                    cleaned_content = cleaned,
                    summary = Some (generate_summary co cleaned),
                    keywords_list = kws,
                    entities = ents,
                    categories = cats,
                    tags = merge_tags co (cd_tags d) kws,
                    importance_score = 0.0,
                    quality_score = cr_quality_score cleaning,
                    sentiment = Some sent,
                    source = Some (cd_source d),
                    author = cd_author d,
                    publish_time = cd_publish_time d,
                    url = Some (cd_url d),
                    extracted_links = cr_extracted_links cleaning,
                    source_authority = 0.7,
                    engagement_metrics = Some [],
                    processing_time = Some \<lparr> micros = utc_now co, tz_aware = True \<rparr> \<rparr>
         in Inr (pc\<lparr> importance_score :=
                        calculate_importance rt (utc_now co) (as_object pc) \<rparr>))))))"

definition process_content ::
  "collaborators \<Rightarrow> runtime \<Rightarrow> cache option \<Rightarrow> collected_data
     \<Rightarrow> processed_content option \<times> cache option" where
  "process_content co rt redis_client d =
     (if cd_title d = [] then (None, redis_client)
      else if is_already_processed co redis_client (cd_url d) then (None, redis_client)
      else
        (let cleaning = clean co (case cd_content d of None \<Rightarrow> [] | Some body \<Rightarrow> body) in
         if length (cr_cleaned_content cleaning) < 50 then (None, redis_client)
         else (case build_content co rt d cleaning of
                 Inl e \<Rightarrow> (None, redis_client)
               | Inr pc \<Rightarrow>
                   (let content_hash =
                          calculate_content_hash co rt (cr_cleaned_content cleaning)
                    in (Some pc, mark_as_processed co redis_client (cd_url d) content_hash)))))"

section \<open>Example inputs\<close>

text \<open>A document with the given id, title, importance score and categories.\<close>

definition example_content :: "pystr \<Rightarrow> pystr \<Rightarrow> real \<Rightarrow> pystr list \<Rightarrow> processed_content" where
  "example_content cid ttl score cats =
     \<lparr> content_id = cid, title = ttl, cleaned_content = [], summary = None,
       keywords_list = [], entities = [], categories = cats, tags = [],
       importance_score = score, quality_score = 0.0, sentiment = None, source = None,
       author = None, publish_time = None, url = None, extracted_links = [],
       source_authority = 0.5, engagement_metrics = Some [], processing_time = None \<rparr>"

text \<open>
  Collaborators for running \<open>process_content\<close> on a body of plain text that needs no
  cleaning: the cleaner hands the body back, the extractors find nothing, and each digest
  is the identity, which like an ideal digest never maps two inputs to one output.
\<close>

definition example_collaborators :: collaborators where
  "example_collaborators =
     \<lparr> clean = (\<lambda>raw. \<lparr> cr_cleaned_content = raw, cr_extracted_links = [],
                         cr_removed_elements = [], cr_quality_score = 0.5 \<rparr>),
       extract_keywords = (\<lambda>t n dom. Inr []),
       extract_entities = (\<lambda>t. Inr []),
       extract_topics = (\<lambda>t. Inr []),
       analyze_sentiment = (\<lambda>t. [(asc ''label'', VStr (asc ''neutral''))]),
       categorize_content = (\<lambda>kws topics tgs. [[34892, 19994, 21160, 24577]]),
       merge_tags = (\<lambda>tgs kws. tgs),
       generate_summary = (\<lambda>t. t),
       md5_hex = (\<lambda>u. u),
       sha256_hex = (\<lambda>t. t),
       utc_now = 0 \<rparr>"

definition example_data :: "pystr \<Rightarrow> pystr \<Rightarrow> pystr \<Rightarrow> pystr \<Rightarrow> collected_data" where
  "example_data did ttl u body =
     \<lparr> cd_data_id = did, cd_source_id = asc ''source_1'', cd_source_type = asc ''rss'',
       cd_source = asc ''TechNews'', cd_title = ttl, cd_content = Some body, cd_url = u,
       cd_author = None, cd_publish_time = None, cd_tags = [],
       cd_collected_time = \<lparr> micros = 0, tz_aware = True \<rparr> \<rparr>"

text \<open>A document is a member of the group stored under a key.\<close>

definition in_group :: "'k \<Rightarrow> 'a \<Rightarrow> ('k \<times> 'a list) list \<Rightarrow> bool" where
  "in_group k x groups = (\<exists>g. (k, g) \<in> set groups \<and> x \<in> set g)"

section \<open>Properties\<close>

subsection \<open>Importance score\<close>

lemma importance_try_as_object:
  "\<exists>s. importance_try rt now (as_object pc) = Inr s"
  by (simp add: importance_try_def calculate_boost_factor_def ebind_def getattr_def
        as_object_def Let_def)


lemma importance_try_range:
  "importance_try rt now c = Inr s \<Longrightarrow> 0 \<le> s \<and> s \<le> 1"
  unfolding importance_try_def ebind_def Let_def
  by (auto split: sum.splits)

lemma importance_try_absent:
  "attr_publish_time c = Absent \<or> attr_source c = Absent \<or> attr_source_authority c = Absent
   \<or> attr_keywords c = Absent \<or> attr_categories c = Absent
   \<or> attr_engagement_metrics c = Absent \<or> attr_title c = Absent
   \<Longrightarrow> importance_try rt now c = Inl AttributeError"
  unfolding importance_try_def calculate_boost_factor_def ebind_def Let_def getattr_def
  by (auto split: sum.splits attr.splits)

text \<open>
  Claim C3. For every object handed to \<open>calculate_importance\<close> the result lies between 0
  and 1. Whenever the body of the \<^verbatim>\<open>try\<close> block raises, the result is exactly 0.5; it
  raises \<open>AttributeError\<close> as soon as one of the attributes it reads without a
  \<^verbatim>\<open>hasattr\<close> test is absent, and it does not raise on an object that has all the
  attributes of the schema.
\<close>

theorem calculate_importance_bounded:
  "0 \<le> calculate_importance rt now c \<and> calculate_importance rt now c \<le> 1
   \<and> (\<forall>e. importance_try rt now c = Inl e \<longrightarrow> calculate_importance rt now c = 1/2)
   \<and> (attr_publish_time c = Absent \<or> attr_source c = Absent \<or> attr_source_authority c = Absent
        \<or> attr_keywords c = Absent \<or> attr_categories c = Absent
        \<or> attr_engagement_metrics c = Absent \<or> attr_title c = Absent
       \<longrightarrow> importance_try rt now c = Inl AttributeError)
   \<and> (\<exists>s. importance_try rt now (as_object pc) = Inr s)"
proof -
  have r: "0 \<le> calculate_importance rt now c \<and> calculate_importance rt now c \<le> 1"
  proof (cases "importance_try rt now c")
    case (Inl e)
    then show ?thesis by (simp add: calculate_importance_def)
  next
    case (Inr s)
    with importance_try_range [OF Inr] show ?thesis by (simp add: calculate_importance_def)
  qed
  have e: "\<forall>e. importance_try rt now c = Inl e \<longrightarrow> calculate_importance rt now c = 1/2"
    by (simp add: calculate_importance_def)
  from r e importance_try_absent [of c rt now] importance_try_as_object [of rt now pc]
  show ?thesis by blast
qed

lemma title_boost_news: "title_boost (asc ''news'') = 1"
  by (simp add: title_boost_def important_keywords_def asc_def sublist_code)

lemma relevance_none: "calculate_relevance rt [] [] = 1/2"
  by (simp add: calculate_relevance_def keyword_terms_def)

lemma uniqueness_none: "calculate_uniqueness rt [] = 1/2"
  by (simp add: calculate_uniqueness_def)

lemma lower_news: "str_lower ascii_runtime (asc ''News'') = asc ''news''"
  by (simp add: ascii_runtime_def ascii_lower_def asc_def)

lemma boost_example:
  "calculate_boost_factor ascii_runtime (as_object (example_content (asc ''a'') (asc ''News'') 0 []))
     = Inr 1"
proof -
  have n: "asc ''News'' \<noteq> []" by (simp add: asc_def)
  show ?thesis
    by (simp add: calculate_boost_factor_def as_object_def example_content_def getattr_def
          ebind_def lower_news title_boost_news n)
qed

lemma importance_example:
  "calculate_importance ascii_runtime 0 (as_object (example_content (asc ''a'') (asc ''News'') 0 []))
     = 4/10"
proof -
  have a: "calculate_authority ascii_runtime None (1/2) = 1/2"
    by (simp add: calculate_authority_def)
  have t: "calculate_timeliness 0 None = 3/10"
    by (simp add: calculate_timeliness_def)
  have e: "calculate_engagement (Some []) = 1/2"
    by (simp add: calculate_engagement_def)
  have "importance_try ascii_runtime 0 (as_object (example_content (asc ''a'') (asc ''News'') 0 []))
          = Inr (4/10)"
    unfolding importance_try_def boost_example
    by (simp add: as_object_def example_content_def getattr_def ebind_def a t e
          relevance_none uniqueness_none)
  then show ?thesis by (simp add: calculate_importance_def)
qed

theorem calculate_importance_bounded_witness:
  "importance_try ascii_runtime 0
      ((as_object (example_content (asc ''a'') (asc ''News'') 0 []))\<lparr> attr_title := Absent \<rparr>)
     = Inl AttributeError
   \<and> calculate_importance ascii_runtime 0
      ((as_object (example_content (asc ''a'') (asc ''News'') 0 []))\<lparr> attr_title := Absent \<rparr>)
     = 1/2
   \<and> calculate_importance ascii_runtime 0 (as_object (example_content (asc ''a'') (asc ''News'') 0 []))
     = 4/10
   \<and> 0 \<le> calculate_importance ascii_runtime 0 (as_object (example_content (asc ''a'') (asc ''News'') 0 []))
   \<and> calculate_importance ascii_runtime 0 (as_object (example_content (asc ''a'') (asc ''News'') 0 [])) \<le> 1"
proof -
  have h: "attr_title ((as_object (example_content (asc ''a'') (asc ''News'') 0 []))\<lparr> attr_title := Absent \<rparr>)
             = Absent"
    by simp
  from calculate_importance_bounded [of ascii_runtime 0
         "(as_object (example_content (asc ''a'') (asc ''News'') 0 []))\<lparr> attr_title := Absent \<rparr>"]
       calculate_importance_bounded [of ascii_runtime 0
         "as_object (example_content (asc ''a'') (asc ''News'') 0 [])"] h importance_example
  show ?thesis by blast
qed

subsection \<open>Authority\<close>

lemma authority_lookup_None_iff:
  "authority_lookup tbl s = None \<longleftrightarrow> (\<forall>k \<in> fst ` set tbl. \<not> sublist k s)"
  by (induction tbl s rule: authority_lookup.induct) auto

lemma authority_lookup_Some:
  "authority_lookup tbl s = Some v \<Longrightarrow>
     \<exists>pre k post. tbl = pre @ (k, v) # post \<and> sublist k s \<and> (\<forall>k' \<in> fst ` set pre. \<not> sublist k' s)"
proof (induction tbl s rule: authority_lookup.induct)
  case (1 s)
  then show ?case by simp
next
  case (2 k score rest s)
  show ?case
  proof (cases "sublist k s")
    case True
    with 2 have "v = score" by simp
    with True have "(k, score) # rest = [] @ (k, v) # rest \<and> sublist k s \<and> (\<forall>k' \<in> fst ` set []. \<not> sublist k' s)"
      by simp
    then show ?thesis by blast
  next
    case False
    with 2 obtain pre post k0 where
      h: "rest = pre @ (k0, v) # post" "sublist k0 s" "\<forall>k' \<in> fst ` set pre. \<not> sublist k' s"
      by auto
    from h False have "(k, score) # rest = ((k, score) # pre) @ (k0, v) # post \<and> sublist k0 s
        \<and> (\<forall>k' \<in> fst ` set ((k, score) # pre). \<not> sublist k' s)"
      by simp
    then show ?thesis by blast
  qed
qed

text \<open>
  Claim C4, as the code has it. An absent or empty source gives the base authority
  unchanged, whatever its value. For a source that is not empty: when some key of the
  table occurs in the lowered source, the result is the maximum of the base authority and
  the score of the first such key in the order of the table; when no key occurs, it is the
  base authority if that is positive and 0.5 if not.
\<close>

theorem calculate_authority_cases:
  "(src = None \<or> src = Some [] \<longrightarrow> calculate_authority rt src base = base)
   \<and> (src = Some s \<and> s \<noteq> [] \<and> (\<exists>k \<in> fst ` set authority_sources. sublist k (str_lower rt s)) \<longrightarrow>
        (\<exists>pre k score post.
           authority_sources = pre @ (k, score) # post \<and> sublist k (str_lower rt s)
           \<and> (\<forall>k' \<in> fst ` set pre. \<not> sublist k' (str_lower rt s))
           \<and> calculate_authority rt src base = max score base))
   \<and> (src = Some s \<and> s \<noteq> [] \<and> \<not> (\<exists>k \<in> fst ` set authority_sources. sublist k (str_lower rt s)) \<longrightarrow>
        calculate_authority rt src base = (if base > 0 then base else 1/2))"
proof (intro conjI impI)
  assume "src = None \<or> src = Some []"
  then show "calculate_authority rt src base = base"
    by (auto simp: calculate_authority_def)
next
  assume a: "src = Some s \<and> s \<noteq> [] \<and> (\<exists>k \<in> fst ` set authority_sources. sublist k (str_lower rt s))"
  then have "authority_lookup authority_sources (str_lower rt s) \<noteq> None"
    unfolding authority_lookup_None_iff by blast
  then obtain score where sc: "authority_lookup authority_sources (str_lower rt s) = Some score"
    by blast
  from authority_lookup_Some [OF sc] obtain pre k post where
    h: "authority_sources = pre @ (k, score) # post" "sublist k (str_lower rt s)"
       "\<forall>k' \<in> fst ` set pre. \<not> sublist k' (str_lower rt s)"
    by blast
  from a sc have "calculate_authority rt src base = max score base"
    by (simp add: calculate_authority_def)
  with h show "\<exists>pre k score post.
           authority_sources = pre @ (k, score) # post \<and> sublist k (str_lower rt s)
           \<and> (\<forall>k' \<in> fst ` set pre. \<not> sublist k' (str_lower rt s))
           \<and> calculate_authority rt src base = max score base"
    by blast
next
  assume a: "src = Some s \<and> s \<noteq> [] \<and> \<not> (\<exists>k \<in> fst ` set authority_sources. sublist k (str_lower rt s))"
  then have "authority_lookup authority_sources (str_lower rt s) = None"
    unfolding authority_lookup_None_iff by blast
  with a show "calculate_authority rt src base = (if base > 0 then base else 1/2)"
    by (simp add: calculate_authority_def)
qed

theorem calculate_authority_cases_witness:
  "calculate_authority ascii_runtime None (7/10) = 7/10
   \<and> (\<exists>pre k score post.
           authority_sources = pre @ (k, score) # post
           \<and> sublist k (str_lower ascii_runtime (asc ''The Verge''))
           \<and> (\<forall>k' \<in> fst ` set pre. \<not> sublist k' (str_lower ascii_runtime (asc ''The Verge'')))
           \<and> calculate_authority ascii_runtime (Some (asc ''The Verge'')) (1/2) = max score (1/2))
   \<and> calculate_authority ascii_runtime (Some (asc ''Blog'')) 0 = 1/2"
proof -
  have l1: "str_lower ascii_runtime (asc ''The Verge'') = asc ''the verge''"
    by (simp add: ascii_runtime_def asc_def ascii_lower_def)
  have l2: "str_lower ascii_runtime (asc ''Blog'') = asc ''blog''"
    by (simp add: ascii_runtime_def asc_def ascii_lower_def)
  have n1: "asc ''The Verge'' \<noteq> []" and n2: "asc ''Blog'' \<noteq> []"
    by (simp_all add: asc_def)
  have m1: "\<exists>k \<in> fst ` set authority_sources. sublist k (str_lower ascii_runtime (asc ''The Verge''))"
    unfolding l1 by (simp add: authority_sources_def asc_def sublist_code)
  have m2: "\<not> (\<exists>k \<in> fst ` set authority_sources. sublist k (str_lower ascii_runtime (asc ''Blog'')))"
    unfolding l2 by (simp add: authority_sources_def asc_def sublist_code)
  have a: "calculate_authority ascii_runtime None (7/10) = 7/10"
    using calculate_authority_cases [of None ascii_runtime "7/10" "[]"] by blast
  have b: "\<exists>pre k score post.
           authority_sources = pre @ (k, score) # post
           \<and> sublist k (str_lower ascii_runtime (asc ''The Verge''))
           \<and> (\<forall>k' \<in> fst ` set pre. \<not> sublist k' (str_lower ascii_runtime (asc ''The Verge'')))
           \<and> calculate_authority ascii_runtime (Some (asc ''The Verge'')) (1/2) = max score (1/2)"
    using calculate_authority_cases [of "Some (asc ''The Verge'')" ascii_runtime "1/2" "asc ''The Verge''"]
      n1 m1 by blast
  have c: "calculate_authority ascii_runtime (Some (asc ''Blog'')) 0 = (if (0::real) > 0 then 0 else 1/2)"
    using calculate_authority_cases [of "Some (asc ''Blog'')" ascii_runtime 0 "asc ''Blog''"]
      n2 m2 by blast
  from a b c show ?thesis by simp
qed

text \<open>
  The claim as stated fails at the empty source with base authority 0: no key of the table
  occurs in it, and the result is the base authority 0, not 0.5.
\<close>

theorem calculate_authority_empty_source_counterexample:
  "authority_lookup authority_sources (str_lower ascii_runtime []) = None
   \<and> calculate_authority ascii_runtime (Some []) 0 = 0
   \<and> calculate_authority ascii_runtime (Some []) 0 \<noteq> (if (0::real) > 0 then 0 else 1/2)"
  by (simp add: calculate_authority_def ascii_runtime_def authority_sources_def asc_def)

subsection \<open>Timeliness\<close>

text \<open>
  Claim C5. An absent publish time scores 0.3. Of two publish times measured against the
  same current time, the more recent one scores at least as much as the older one. The
  score follows the step schedule: under 1 hour 1.0, under 6 hours 0.9, under 1 day 0.8,
  under 3 days 0.6, under 7 days 0.4, under 30 days 0.2, and 0.1 from then on.
\<close>

theorem timeliness_monotone:
  "calculate_timeliness now None = 3/10
   \<and> (micros p_old \<le> micros p_new \<longrightarrow>
        calculate_timeliness now (Some p_old) \<le> calculate_timeliness now (Some p_new))
   \<and> calculate_timeliness now (Some p) =
       (if now - micros p < hours 1 then 1
        else if now - micros p < hours 6 then 9/10
        else if now - micros p < days 1 then 8/10
        else if now - micros p < days 3 then 6/10
        else if now - micros p < days 7 then 4/10
        else if now - micros p < days 30 then 2/10
        else 1/10)"
  unfolding calculate_timeliness_def Let_def hours_def days_def
  by auto

theorem timeliness_monotone_witness:
  "micros \<lparr>micros = 0, tz_aware = True\<rparr> \<le> micros \<lparr>micros = days 7, tz_aware = True\<rparr>
   \<and> calculate_timeliness (days 7 + hours 2) (Some \<lparr>micros = 0, tz_aware = True\<rparr>) = 2/10
   \<and> calculate_timeliness (days 7 + hours 2) (Some \<lparr>micros = days 7, tz_aware = True\<rparr>) = 9/10
   \<and> calculate_timeliness (days 7 + hours 2) (Some \<lparr>micros = 0, tz_aware = True\<rparr>)
       \<le> calculate_timeliness (days 7 + hours 2) (Some \<lparr>micros = days 7, tz_aware = True\<rparr>)"
proof -
  have h: "micros \<lparr>micros = 0, tz_aware = True\<rparr> \<le> micros \<lparr>micros = days 7, tz_aware = True\<rparr>"
    by (simp add: days_def)
  have v: "calculate_timeliness (days 7 + hours 2) (Some \<lparr>micros = 0, tz_aware = True\<rparr>) = 2/10"
      "calculate_timeliness (days 7 + hours 2) (Some \<lparr>micros = days 7, tz_aware = True\<rparr>) = 9/10"
    by (simp_all add: calculate_timeliness_def days_def hours_def)
  from timeliness_monotone [of "days 7 + hours 2" "\<lparr>micros = 0, tz_aware = True\<rparr>"
        "\<lparr>micros = days 7, tz_aware = True\<rparr>"] h v
  show ?thesis by blast
qed

subsection \<open>Sorting by importance\<close>

lemma sorted_reverse_mset: "mset (sorted_reverse key xs) = mset xs"
  by (simp add: sorted_reverse_def)

lemma sorted_reverse_desc: "sorted_wrt (\<lambda>a b. key a \<ge> key b) (sorted_reverse key xs)"
proof -
  have "sorted (map key (sort_key key (rev xs)))" by simp
  then have "sorted_wrt (\<lambda>a b. key a \<le> key b) (sort_key key (rev xs))"
    by (simp add: sorted_map)
  then show ?thesis
    by (simp add: sorted_reverse_def sorted_wrt_rev)
qed

lemma sorted_reverse_stable:
  "filter (\<lambda>x. key x = k) (sorted_reverse key xs) = filter (\<lambda>x. key x = k) xs"
proof -
  have "filter (\<lambda>x. key x = k) (sorted_reverse key xs)
        = rev (filter (\<lambda>x. key x = k) (sort_key key (rev xs)))"
    by (simp add: sorted_reverse_def rev_filter)
  also have "\<dots> = rev (filter (\<lambda>x. key x = k) (rev xs))"
    by (simp only: sort_key_stable)
  also have "\<dots> = filter (\<lambda>x. key x = k) xs"
    by (simp add: rev_filter)
  finally show ?thesis .
qed

text \<open>
  Claim C6. \<open>sort_by_importance\<close> returns a permutation of its input, in which the
  importance scores never increase, and the documents of one and the same score stand in
  the order they had in the input. The function builds a new list; its argument is a
  value and is not changed.
\<close>

theorem sort_by_importance_stable:
  "mset (sort_by_importance contents) = mset contents
   \<and> sorted_wrt (\<lambda>a b. importance_score a \<ge> importance_score b) (sort_by_importance contents)
   \<and> (\<forall>k. filter (\<lambda>c. importance_score c = k) (sort_by_importance contents)
           = filter (\<lambda>c. importance_score c = k) contents)"
  unfolding sort_by_importance_def
  by (simp add: sorted_reverse_mset sorted_reverse_desc sorted_reverse_stable)

theorem sort_by_importance_stable_witness:
  "sort_by_importance
       [example_content (asc ''a'') [] 0.5 [], example_content (asc ''b'') [] 0.9 [],
        example_content (asc ''c'') [] 0.5 []]
     = [example_content (asc ''b'') [] 0.9 [], example_content (asc ''a'') [] 0.5 [],
        example_content (asc ''c'') [] 0.5 []]
   \<and> filter (\<lambda>c. importance_score c = 0.5) (sort_by_importance
       [example_content (asc ''a'') [] 0.5 [], example_content (asc ''b'') [] 0.9 [],
        example_content (asc ''c'') [] 0.5 []])
     = [example_content (asc ''a'') [] 0.5 [], example_content (asc ''c'') [] 0.5 []]"
proof -
  have e: "sort_by_importance
       [example_content (asc ''a'') [] 0.5 [], example_content (asc ''b'') [] 0.9 [],
        example_content (asc ''c'') [] 0.5 []]
     = [example_content (asc ''b'') [] 0.9 [], example_content (asc ''a'') [] 0.5 [],
        example_content (asc ''c'') [] 0.5 []]"
    by (simp add: sort_by_importance_def sorted_reverse_def example_content_def)
  have f: "filter (\<lambda>c. importance_score c = 0.5)
       [example_content (asc ''a'') [] 0.5 [], example_content (asc ''b'') [] 0.9 [],
        example_content (asc ''c'') [] 0.5 []]
     = [example_content (asc ''a'') [] 0.5 [], example_content (asc ''c'') [] 0.5 []]"
    by (simp add: example_content_def)
  from sort_by_importance_stable [of "[example_content (asc ''a'') [] 0.5 [],
        example_content (asc ''b'') [] 0.9 [], example_content (asc ''c'') [] 0.5 []]"] e f
  show ?thesis by metis
qed

subsection \<open>Grouping by category\<close>

lemma map_fst_group_update:
  "map fst (map (\<lambda>(k', g). if k' = k then (k', g @ [x]) else (k', g)) groups) = map fst groups"
  by (induction groups) auto

lemma group_append_distinct:
  assumes "distinct (map fst groups)"
  shows "distinct (map fst (group_append k x groups))"
proof (cases "k \<in> fst ` set groups")
  case True
  then have "group_append k x groups
             = map (\<lambda>(k', g). if k' = k then (k', g @ [x]) else (k', g)) groups"
    by (simp add: group_append_def)
  with assms show ?thesis
    by (simp only: map_fst_group_update)
next
  case False
  then have "group_append k x groups = groups @ [(k, [x])]"
    by (simp add: group_append_def)
  with assms False show ?thesis by simp
qed

lemma group_update_member:
  "(k', g) \<in> set groups \<Longrightarrow>
     (k', if k' = k then g @ [x] else g)
       \<in> set (map (\<lambda>(k', g). if k' = k then (k', g @ [x]) else (k', g)) groups)"
  by (induction groups) auto

lemma group_append_new: "in_group k x (group_append k x groups)"
proof (cases "k \<in> fst ` set groups")
  case True
  then obtain g where g: "(k, g) \<in> set groups" by auto
  from group_update_member [OF g, of k x] True show ?thesis
    unfolding in_group_def group_append_def by (intro exI [of _ "g @ [x]"]) simp
next
  case False
  then show ?thesis
    unfolding in_group_def group_append_def by (intro exI [of _ "[x]"]) simp
qed

lemma group_append_keeps:
  assumes "in_group k' y groups"
  shows "in_group k' y (group_append k x groups)"
proof -
  from assms obtain g where g: "(k', g) \<in> set groups" "y \<in> set g"
    unfolding in_group_def by blast
  show ?thesis
  proof (cases "k \<in> fst ` set groups")
    case True
    from group_update_member [OF g(1), of k x] g(2) True show ?thesis
      unfolding in_group_def group_append_def
      by (intro exI [of _ "if k' = k then g @ [x] else g"]) simp
  next
    case False
    with g show ?thesis
      unfolding in_group_def group_append_def by (intro exI [of _ g]) simp
  qed
qed

lemma fold_group_append_keeps:
  "in_group k' y groups \<Longrightarrow> in_group k' y (fold (\<lambda>k. group_append k x) ks groups)"
  by (induction ks arbitrary: groups) (auto intro: group_append_keeps)

lemma fold_group_append_new:
  "k \<in> set ks \<Longrightarrow> in_group k x (fold (\<lambda>k. group_append k x) ks groups)"
proof (induction ks arbitrary: groups)
  case Nil
  then show ?case by simp
next
  case (Cons a ks)
  show ?case
  proof (cases "k = a")
    case True
    then show ?thesis
      by (simp add: fold_group_append_keeps group_append_new)
  next
    case False
    with Cons show ?thesis by simp
  qed
qed

lemma fold_group_append_distinct:
  "distinct (map fst groups) \<Longrightarrow> distinct (map fst (fold (\<lambda>k. group_append k x) ks groups))"
  by (induction ks arbitrary: groups) (auto intro: group_append_distinct)

lemma categorize_step_keeps:
  "in_group k y z \<Longrightarrow> in_group k y (categorize_step c z)"
  by (simp add: categorize_step_def fold_group_append_keeps group_append_keeps)

lemma categorize_step_distinct:
  "distinct (map fst z) \<Longrightarrow> distinct (map fst (categorize_step c z))"
  by (simp add: categorize_step_def fold_group_append_distinct group_append_distinct)

lemma categorize_step_new:
  "(categories c = [] \<longrightarrow> in_group uncategorized c (categorize_step c z))
   \<and> (\<forall>cat \<in> set (categories c). in_group cat c (categorize_step c z))"
  by (auto simp: categorize_step_def fold_group_append_new group_append_new)

lemma fold_categorize_keeps:
  "in_group k y z \<Longrightarrow> in_group k y (fold categorize_step cs z)"
  by (induction cs arbitrary: z) (auto intro: categorize_step_keeps)

lemma fold_categorize_distinct:
  "distinct (map fst z) \<Longrightarrow> distinct (map fst (fold categorize_step cs z))"
  by (induction cs arbitrary: z) (auto intro: categorize_step_distinct)

lemma fold_categorize_new:
  "c \<in> set cs \<Longrightarrow>
     (categories c = [] \<longrightarrow> in_group uncategorized c (fold categorize_step cs z))
     \<and> (\<forall>cat \<in> set (categories c). in_group cat c (fold categorize_step cs z))"
proof (induction cs arbitrary: z)
  case Nil
  then show ?case by simp
next
  case (Cons a cs)
  show ?case
  proof (cases "c = a")
    case True
    with categorize_step_new [of a z] show ?thesis
      by (auto intro: fold_categorize_keeps)
  next
    case False
    with Cons show ?thesis by simp
  qed
qed

lemma in_group_sorted:
  "in_group k x (map (\<lambda>(k, g). (k, sorted_reverse f g)) groups) = in_group k x groups"
proof -
  have s: "\<And>g. set (sorted_reverse f g) = set g"
    by (simp add: sorted_reverse_def)
  show ?thesis
    unfolding in_group_def
    by (auto simp: s image_iff) (force simp: s)+
qed

lemma map_fst_sorted:
  "map fst (map (\<lambda>(k, g). (k, sorted_reverse f g)) groups) = map fst groups"
  by (induction groups) auto

text \<open>
  Claim C9. The result of \<open>aggregate_by_category\<close> is a mapping (its keys are
  distinct). A document whose category list is empty is a member of the group of the
  catch-all key, a document with categories is a member of the group of each of them, and
  so every document of the corpus is a member of at least one group. (A category list
  that is \<^verbatim>\<open>None\<close> fails the same test of the source as the empty list.)
\<close>

theorem aggregate_by_category_covers:
  "distinct (map fst (aggregate_by_category contents))
   \<and> (\<forall>c \<in> set contents.
        (categories c = [] \<longrightarrow>
           (\<exists>g. (uncategorized, g) \<in> set (aggregate_by_category contents) \<and> c \<in> set g))
        \<and> (\<forall>cat \<in> set (categories c).
              \<exists>g. (cat, g) \<in> set (aggregate_by_category contents) \<and> c \<in> set g)
        \<and> (\<exists>k g. (k, g) \<in> set (aggregate_by_category contents) \<and> c \<in> set g))"
proof -
  have d: "distinct (map fst (aggregate_by_category contents))"
    unfolding aggregate_by_category_def map_fst_sorted
    by (rule fold_categorize_distinct) simp
  have m: "(categories c = [] \<longrightarrow>
           (\<exists>g. (uncategorized, g) \<in> set (aggregate_by_category contents) \<and> c \<in> set g))
        \<and> (\<forall>cat \<in> set (categories c).
              \<exists>g. (cat, g) \<in> set (aggregate_by_category contents) \<and> c \<in> set g)
        \<and> (\<exists>k g. (k, g) \<in> set (aggregate_by_category contents) \<and> c \<in> set g)"
    if c: "c \<in> set contents" for c
  proof -
    have n: "(categories c = [] \<longrightarrow> in_group uncategorized c (aggregate_by_category contents))
       \<and> (\<forall>cat \<in> set (categories c). in_group cat c (aggregate_by_category contents))"
      unfolding aggregate_by_category_def in_group_sorted
      by (rule fold_categorize_new [OF c])
    have e: "\<exists>k. in_group k c (aggregate_by_category contents)"
    proof (cases "categories c")
      case Nil
      with n show ?thesis by blast
    next
      case (Cons a list)
      then have "a \<in> set (categories c)" by simp
      with n show ?thesis by blast
    qed
    from n e show ?thesis
      unfolding in_group_def by blast
  qed
  from d m show ?thesis by blast
qed

lemma example_aggregate:
  "aggregate_by_category
     [example_content (asc ''a'') (asc ''A'') 0.5 [],
      example_content (asc ''b'') (asc ''B'') 0.9 [[25216, 26415]]]
   = [(uncategorized, [example_content (asc ''a'') (asc ''A'') 0.5 []]),
      ([25216, 26415], [example_content (asc ''b'') (asc ''B'') 0.9 [[25216, 26415]]])]"
  by (simp add: aggregate_by_category_def categorize_step_def group_append_def
        sorted_reverse_def example_content_def uncategorized_def)

theorem aggregate_by_category_covers_witness:
  "example_content (asc ''a'') (asc ''A'') 0.5 []
     \<in> set [example_content (asc ''a'') (asc ''A'') 0.5 [],
            example_content (asc ''b'') (asc ''B'') 0.9 [[25216, 26415]]]
   \<and> categories (example_content (asc ''a'') (asc ''A'') 0.5 []) = []
   \<and> (\<exists>g. (uncategorized, g) \<in> set (aggregate_by_category
              [example_content (asc ''a'') (asc ''A'') 0.5 [],
               example_content (asc ''b'') (asc ''B'') 0.9 [[25216, 26415]]])
          \<and> example_content (asc ''a'') (asc ''A'') 0.5 [] \<in> set g)"
proof -
  have h: "example_content (asc ''a'') (asc ''A'') 0.5 []
     \<in> set [example_content (asc ''a'') (asc ''A'') 0.5 [],
            example_content (asc ''b'') (asc ''B'') 0.9 [[25216, 26415]]]"
    by simp
  have e: "categories (example_content (asc ''a'') (asc ''A'') 0.5 []) = []"
    by (simp add: example_content_def)
  from aggregate_by_category_covers [of "[example_content (asc ''a'') (asc ''A'') 0.5 [],
            example_content (asc ''b'') (asc ''B'') 0.9 [[25216, 26415]]]"] h e
  show ?thesis by blast
qed

subsection \<open>Deduplication by title\<close>

lemma dedup_loop_acc:
  "dedup_loop rt cs seen unique_contents = unique_contents @ dedup_loop rt cs seen []"
proof (induction cs arbitrary: seen unique_contents)
  case Nil
  then show ?case by simp
next
  case (Cons c cs)
  show ?case
  proof (cases "title_key rt c \<in> seen")
    case True
    with Cons [of seen unique_contents] show ?thesis by simp
  next
    case False
    with Cons [of "insert (title_key rt c) seen" "unique_contents @ [c]"]
         Cons [of "insert (title_key rt c) seen" "[c]"]
    show ?thesis by simp
  qed
qed

lemma dedup_loop_Cons:
  "dedup_loop rt (c # cs) seen [] =
     (if title_key rt c \<in> seen then dedup_loop rt cs seen []
      else c # dedup_loop rt cs (insert (title_key rt c) seen) [])"
  using dedup_loop_acc [of rt cs "insert (title_key rt c) seen" "[c]"] by simp

lemma dedup_loop_keys:
  "title_key rt ` set (dedup_loop rt cs seen []) = title_key rt ` set cs - seen"
proof (induction cs arbitrary: seen)
  case Nil
  then show ?case by simp
next
  case (Cons c cs)
  show ?case
    unfolding dedup_loop_Cons using Cons [of seen] Cons [of "insert (title_key rt c) seen"]
    by auto
qed

lemma dedup_loop_distinct:
  "distinct (map (title_key rt) (dedup_loop rt cs seen []))"
proof (induction cs arbitrary: seen)
  case Nil
  then show ?case by simp
next
  case (Cons c cs)
  have "title_key rt c \<notin> title_key rt ` set (dedup_loop rt cs (insert (title_key rt c) seen) [])"
    unfolding dedup_loop_keys by simp
  with Cons [of seen] Cons [of "insert (title_key rt c) seen"] show ?case
    unfolding dedup_loop_Cons by simp
qed

lemma dedup_loop_subseq: "subseq (dedup_loop rt cs seen []) cs"
proof (induction cs arbitrary: seen)
  case Nil
  then show ?case by simp
next
  case (Cons c cs)
  from Cons [of seen] Cons [of "insert (title_key rt c) seen"] show ?case
    unfolding dedup_loop_Cons by auto
qed

lemma dedup_loop_first:
  "c \<in> set (dedup_loop rt cs seen []) \<Longrightarrow>
     title_key rt c \<notin> seen \<and> find (\<lambda>x. title_key rt x = title_key rt c) cs = Some c"
proof (induction cs arbitrary: seen)
  case Nil
  then show ?case by simp
next
  case (Cons a cs)
  show ?case
  proof (cases "title_key rt a \<in> seen")
    case True
    with Cons.prems have "c \<in> set (dedup_loop rt cs seen [])"
      by (simp add: dedup_loop_Cons del: dedup_loop.simps)
    from Cons.IH [OF this] True show ?thesis by auto
  next
    case False
    with Cons.prems have "c = a \<or> c \<in> set (dedup_loop rt cs (insert (title_key rt a) seen) [])"
      by (simp add: dedup_loop_Cons del: dedup_loop.simps)
    then show ?thesis
    proof
      assume "c = a"
      with False show ?thesis by simp
    next
      assume "c \<in> set (dedup_loop rt cs (insert (title_key rt a) seen) [])"
      from Cons.IH [OF this] show ?thesis by auto
    qed
  qed
qed

text \<open>
  Claim C10. \<open>deduplicate_by_title\<close> gives the same result for any two thresholds. The
  result is a subsequence of the corpus in which no two documents have the same lowered
  and stripped title, every such title of the corpus occurs in it, and each of its
  documents is the first document of the corpus with its title.
\<close>

theorem deduplicate_by_title_ignores_threshold:
  "deduplicate_by_title rt contents t1 = deduplicate_by_title rt contents t2
   \<and> subseq (deduplicate_by_title rt contents t1) contents
   \<and> distinct (map (title_key rt) (deduplicate_by_title rt contents t1))
   \<and> title_key rt ` set (deduplicate_by_title rt contents t1) = title_key rt ` set contents
   \<and> (\<forall>c \<in> set (deduplicate_by_title rt contents t1).
         find (\<lambda>x. title_key rt x = title_key rt c) contents = Some c)"
proof -
  have e: "deduplicate_by_title rt contents t = dedup_loop rt contents {} []" for t
    by (cases contents) (simp_all add: deduplicate_by_title_def)
  show ?thesis
    unfolding e
    using dedup_loop_subseq [of rt contents "{}"] dedup_loop_distinct [of rt contents "{}"]
      dedup_loop_keys [of rt contents "{}"] dedup_loop_first [of _ rt contents "{}"]
    by simp
qed

theorem deduplicate_by_title_ignores_threshold_witness:
  "deduplicate_by_title ascii_runtime
      [example_content (asc ''1'') (asc '' GPT News'') 0.5 [],
       example_content (asc ''2'') (asc ''gpt news '') 0.9 [],
       example_content (asc ''3'') (asc ''Other'') 0.7 []] (9/10)
    = [example_content (asc ''1'') (asc '' GPT News'') 0.5 [],
       example_content (asc ''3'') (asc ''Other'') 0.7 []]
   \<and> deduplicate_by_title ascii_runtime
      [example_content (asc ''1'') (asc '' GPT News'') 0.5 [],
       example_content (asc ''2'') (asc ''gpt news '') 0.9 [],
       example_content (asc ''3'') (asc ''Other'') 0.7 []] (9/10)
    = deduplicate_by_title ascii_runtime
      [example_content (asc ''1'') (asc '' GPT News'') 0.5 [],
       example_content (asc ''2'') (asc ''gpt news '') 0.9 [],
       example_content (asc ''3'') (asc ''Other'') 0.7 []] 0"
proof -
  have v: "deduplicate_by_title ascii_runtime
      [example_content (asc ''1'') (asc '' GPT News'') 0.5 [],
       example_content (asc ''2'') (asc ''gpt news '') 0.9 [],
       example_content (asc ''3'') (asc ''Other'') 0.7 []] (9/10)
    = [example_content (asc ''1'') (asc '' GPT News'') 0.5 [],
       example_content (asc ''3'') (asc ''Other'') 0.7 []]"
    by (simp add: deduplicate_by_title_def title_key_def py_strip_def ascii_runtime_def
          ascii_lower_def asc_def example_content_def)
  from deduplicate_by_title_ignores_threshold [of ascii_runtime
      "[example_content (asc ''1'') (asc '' GPT News'') 0.5 [],
       example_content (asc ''2'') (asc ''gpt news '') 0.9 [],
       example_content (asc ''3'') (asc ''Other'') 0.7 []]" "9/10" 0] v
  show ?thesis by blast
qed

subsection \<open>Statistics\<close>

lemma round_half_even_near: "\<bar>of_int (round_half_even y) - y\<bar> \<le> 1/2"
proof -
  define f where "f = \<lfloor>y\<rfloor>"
  define d where "d = y - of_int f"
  have d: "0 \<le> d" "d < 1"
    unfolding d_def f_def by linarith+
  have y: "y = of_int f + d"
    by (simp add: d_def)
  have r: "round_half_even y =
        (if d < 1/2 then f else if d > 1/2 then f + 1 else if even f then f else f + 1)"
    by (simp add: round_half_even_def Let_def f_def d_def)
  show ?thesis
  proof (cases "d < 1/2")
    case True
    with d r y show ?thesis by simp
  next
    case False
    show ?thesis
    proof (cases "d > 1/2")
      case True
      with False d r y show ?thesis by simp
    next
      case F2: False
      with False have "d = 1/2" by simp
      with r y show ?thesis by (cases "even f") simp_all
    qed
  qed
qed

lemma py_round3_near: "\<bar>py_round3 x - x\<bar> \<le> 1/2000"
proof -
  have "\<bar>of_int (round_half_even (x * 1000)) - x * 1000\<bar> \<le> 1/2"
    by (rule round_half_even_near)
  then show ?thesis
    unfolding py_round3_def by (simp add: abs_if field_simps split: if_splits)
qed

lemma py_round3_grid: "\<exists>n::int. py_round3 x = of_int n / 1000"
  unfolding py_round3_def by blast

lemma sentiment_loop_ok:
  "\<forall>c \<in> set cs. \<forall>d. sentiment c = Some d \<longrightarrow>
       hashable (dict_get d (asc ''label'') (VStr (asc ''neutral'')))
   \<Longrightarrow> \<exists>r. sentiment_loop cs st = Inr r"
proof (induction cs arbitrary: st)
  case Nil
  then show ?case by simp
next
  case (Cons c cs)
  then have "\<exists>s. sentiment_step c st = Inr s"
    by (auto simp: sentiment_step_def Let_def split: option.splits)
  then obtain s where s: "sentiment_step c st = Inr s" by blast
  from Cons have "\<exists>r. sentiment_loop cs s = Inr r" by simp
  with s show ?case by (simp add: ebind_def)
qed

lemma min_time_ok:
  "tz_aware m = aw \<Longrightarrow> \<forall>t \<in> set ts. tz_aware t = aw \<Longrightarrow> \<exists>r. min_time m ts = Inr r"
  by (induction ts arbitrary: m) (auto simp: ebind_def dt_less_def)

lemma max_time_ok:
  "tz_aware m = aw \<Longrightarrow> \<forall>t \<in> set ts. tz_aware t = aw \<Longrightarrow> \<exists>r. max_time m ts = Inr r"
  by (induction ts arbitrary: m) (auto simp: ebind_def dt_less_def)

lemma make_date_range_ok:
  assumes "\<forall>t \<in> set ts. tz_aware t = aw"
  shows "\<exists>r. make_date_range ts = Inr r"
proof (cases ts)
  case Nil
  then show ?thesis by (simp add: make_date_range_def)
next
  case (Cons t rest)
  with assms have a: "tz_aware t = aw" "\<forall>t \<in> set rest. tz_aware t = aw" by simp_all
  from min_time_ok [OF a] obtain lo where lo: "min_time t rest = Inr lo" by blast
  from max_time_ok [OF a] obtain hi where hi: "max_time t rest = Inr hi" by blast
  from Cons lo hi show ?thesis by (simp add: make_date_range_def ebind_def)
qed

lemma calculate_statistics_avg:
  assumes "contents \<noteq> []" and "calculate_statistics fa contents = Inr st"
  shows "total_count st = length contents
     \<and> avg_importance_score st
         = py_round3 (float_div fa (float_sum fa (map importance_score contents))
                                   (real (length contents)))"
  using assms unfolding calculate_statistics_def Let_def ebind_def
  by (auto split: sum.splits)

lemma calculate_statistics_returns:
  assumes "\<forall>c \<in> set contents. \<forall>d. sentiment c = Some d \<longrightarrow>
             hashable (dict_get d (asc ''label'') (VStr (asc ''neutral'')))"
    and "\<forall>t \<in> set (content_times contents). tz_aware t = aw"
  shows "\<exists>st. calculate_statistics fa contents = Inr st"
proof -
  from sentiment_loop_ok [OF assms(1)] obtain s where s: "sentiment_loop contents [] = Inr s"
    by blast
  from make_date_range_ok [OF assms(2)] obtain r where
    r: "make_date_range (content_times contents) = Inr r" by blast
  from s r show ?thesis
    by (simp add: calculate_statistics_def Let_def ebind_def)
qed

text \<open>
  Claim C8. On the empty corpus \<open>calculate_statistics\<close> returns, without raising, the
  structure with total count 0, average importance 0, empty category, source and
  sentiment maps and no date range. On a corpus that is not empty, a result it returns
  has the number of documents as its total count and, as its average, the mean of the
  importance scores as floating-point arithmetic computes it, rounded to 3 decimal
  places: a multiple of 1/1000 at most 1/2000 away from that mean. It does return when
  every sentiment label can be a dictionary key and the times of the documents are all
  aware or all naive.
\<close>

theorem calculate_statistics_empty_and_rounded:
  "calculate_statistics fa [] =
     Inr \<lparr> total_count = 0, avg_importance_score = 0, category_stats = [],
           source_stats = [], sentiment_stats = [], date_range_of = None \<rparr>
   \<and> (contents \<noteq> [] \<and> calculate_statistics fa contents = Inr st \<longrightarrow>
        total_count st = length contents
        \<and> avg_importance_score st
            = py_round3 (float_div fa (float_sum fa (map importance_score contents))
                                      (real (length contents)))
        \<and> \<bar>avg_importance_score st
             - float_div fa (float_sum fa (map importance_score contents))
                            (real (length contents))\<bar> \<le> 1/2000
        \<and> (\<exists>n::int. avg_importance_score st = of_int n / 1000))
   \<and> \<bar>py_round3 x - x\<bar> \<le> 1/2000
   \<and> (\<exists>n::int. py_round3 x = of_int n / 1000)
   \<and> ((\<forall>c \<in> set contents. \<forall>d. sentiment c = Some d \<longrightarrow>
           hashable (dict_get d (asc ''label'') (VStr (asc ''neutral''))))
        \<and> (\<forall>t \<in> set (content_times contents). tz_aware t = aw)
       \<longrightarrow> (\<exists>st. calculate_statistics fa contents = Inr st))"
proof -
  have e: "calculate_statistics fa [] =
     Inr \<lparr> total_count = 0, avg_importance_score = 0, category_stats = [],
           source_stats = [], sentiment_stats = [], date_range_of = None \<rparr>"
    by (simp add: calculate_statistics_def)
  have a: "total_count st = length contents
        \<and> avg_importance_score st
            = py_round3 (float_div fa (float_sum fa (map importance_score contents))
                                      (real (length contents)))
        \<and> \<bar>avg_importance_score st
             - float_div fa (float_sum fa (map importance_score contents))
                            (real (length contents))\<bar> \<le> 1/2000
        \<and> (\<exists>n::int. avg_importance_score st = of_int n / 1000)"
    if h: "contents \<noteq> [] \<and> calculate_statistics fa contents = Inr st"
  proof -
    from h calculate_statistics_avg [of contents fa st] have
      v: "total_count st = length contents"
         "avg_importance_score st
            = py_round3 (float_div fa (float_sum fa (map importance_score contents))
                                      (real (length contents)))"
      by simp_all
    from v py_round3_near py_round3_grid show ?thesis by simp
  qed
  from e a py_round3_near [of x] py_round3_grid [of x]
    calculate_statistics_returns [of contents aw fa]
  show ?thesis by blast
qed

lemma py_round3_example: "py_round3 (15/64) = 234/1000"
proof -
  have f: "\<lfloor>(1875::real) / 8\<rfloor> = 234" by simp
  have "round_half_even (1875/8) = 234"
    unfolding round_half_even_def Let_def f by simp
  then show ?thesis by (simp add: py_round3_def)
qed

lemma example_statistics:
  "calculate_statistics exact_arith
     [example_content (asc ''a'') (asc ''A'') (1/2) [],
      example_content (asc ''b'') (asc ''B'') (1/4) [],
      example_content (asc ''c'') (asc ''C'') (1/8) [],
      example_content (asc ''d'') (asc ''D'') (1/16) []]
   = Inr \<lparr> total_count = 4, avg_importance_score = py_round3 (15/64), category_stats = [],
           source_stats = [(unknown_source, 4)], sentiment_stats = [],
           date_range_of = None \<rparr>"
  by (simp add: calculate_statistics_def Let_def ebind_def example_content_def count_bump_def
        source_or_unknown_def sentiment_step_def content_times_def make_date_range_def
        exact_arith_def)

theorem calculate_statistics_empty_and_rounded_witness:
  "[example_content (asc ''a'') (asc ''A'') (1/2) [],
    example_content (asc ''b'') (asc ''B'') (1/4) [],
    example_content (asc ''c'') (asc ''C'') (1/8) [],
    example_content (asc ''d'') (asc ''D'') (1/16) []] \<noteq> []
   \<and> calculate_statistics exact_arith
       [example_content (asc ''a'') (asc ''A'') (1/2) [],
        example_content (asc ''b'') (asc ''B'') (1/4) [],
        example_content (asc ''c'') (asc ''C'') (1/8) [],
        example_content (asc ''d'') (asc ''D'') (1/16) []]
     = Inr \<lparr> total_count = 4, avg_importance_score = 234/1000, category_stats = [],
             source_stats = [(unknown_source, 4)], sentiment_stats = [],
             date_range_of = None \<rparr>
   \<and> avg_importance_score \<lparr> total_count = 4, avg_importance_score = 234/1000,
             category_stats = [], source_stats = [(unknown_source, 4)], sentiment_stats = [],
             date_range_of = None \<rparr>
     = py_round3 (float_div exact_arith (float_sum exact_arith (map importance_score
         [example_content (asc ''a'') (asc ''A'') (1/2) [],
          example_content (asc ''b'') (asc ''B'') (1/4) [],
          example_content (asc ''c'') (asc ''C'') (1/8) [],
          example_content (asc ''d'') (asc ''D'') (1/16) []])) (real (length
         [example_content (asc ''a'') (asc ''A'') (1/2) [],
          example_content (asc ''b'') (asc ''B'') (1/4) [],
          example_content (asc ''c'') (asc ''C'') (1/8) [],
          example_content (asc ''d'') (asc ''D'') (1/16) []])))"
proof -
  have n: "[example_content (asc ''a'') (asc ''A'') (1/2) [],
    example_content (asc ''b'') (asc ''B'') (1/4) [],
    example_content (asc ''c'') (asc ''C'') (1/8) [],
    example_content (asc ''d'') (asc ''D'') (1/16) []] \<noteq> []"
    by simp
  have v: "calculate_statistics exact_arith
       [example_content (asc ''a'') (asc ''A'') (1/2) [],
        example_content (asc ''b'') (asc ''B'') (1/4) [],
        example_content (asc ''c'') (asc ''C'') (1/8) [],
        example_content (asc ''d'') (asc ''D'') (1/16) []]
     = Inr \<lparr> total_count = 4, avg_importance_score = 234/1000, category_stats = [],
             source_stats = [(unknown_source, 4)], sentiment_stats = [],
             date_range_of = None \<rparr>"
    using example_statistics by (simp only: py_round3_example)
  note t = calculate_statistics_empty_and_rounded
         [of exact_arith
             "[example_content (asc ''a'') (asc ''A'') (1/2) [],
               example_content (asc ''b'') (asc ''B'') (1/4) [],
               example_content (asc ''c'') (asc ''C'') (1/8) [],
               example_content (asc ''d'') (asc ''D'') (1/16) []]"
             "\<lparr> total_count = 4, avg_importance_score = 234/1000, category_stats = [],
                source_stats = [(unknown_source, 4)], sentiment_stats = [],
                date_range_of = None \<rparr>"]
  from t n v show ?thesis by blast
qed

text \<open>
  Why the floating-point mean is a parameter: for the scores 0.0625, 0, 0, 0, 0 the exact
  mean 0.0125 is a tie, which rounds to 0.012; the double that the division returns lies
  just above the tie, and with it the average is 0.013.
\<close>

lemma py_round3_double_above_tie:
  "py_round3 (3602879701896397 / 288230376151711744) = 13/1000"
proof -
  have v: "(3602879701896397 / 288230376151711744) * (1000::real)
             = 450359962737049625 / 36028797018963968"
    by simp
  have f: "\<lfloor>(450359962737049625::real) / 36028797018963968\<rfloor> = 12" by simp
  have "round_half_even (450359962737049625 / 36028797018963968) = 13"
    unfolding round_half_even_def Let_def f by simp
  then show ?thesis unfolding py_round3_def v by simp
qed

lemma py_round3_exact_tie: "py_round3 (1/80) = 12/1000"
proof -
  have f: "\<lfloor>(25::real) / 2\<rfloor> = 12" by simp
  have "round_half_even (25/2) = 12"
    unfolding round_half_even_def Let_def f by simp
  then show ?thesis by (simp add: py_round3_def)
qed

lemma calculate_statistics_tie_follows_float_division:
  assumes "float_sum fa [1/16, 0, 0, 0, 0] = 1/16"
    and "float_div fa (1/16) 5 = 3602879701896397 / 288230376151711744"
  shows "map_sum id avg_importance_score
           (calculate_statistics fa
              [example_content (asc ''a'') (asc ''A'') (1/16) [],
               example_content (asc ''b'') (asc ''B'') 0 [],
               example_content (asc ''c'') (asc ''C'') 0 [],
               example_content (asc ''d'') (asc ''D'') 0 [],
               example_content (asc ''e'') (asc ''E'') 0 []])
         = Inr (13/1000)"
proof -
  have "map_sum id avg_importance_score
           (calculate_statistics fa
              [example_content (asc ''a'') (asc ''A'') (1/16) [],
               example_content (asc ''b'') (asc ''B'') 0 [],
               example_content (asc ''c'') (asc ''C'') 0 [],
               example_content (asc ''d'') (asc ''D'') 0 [],
               example_content (asc ''e'') (asc ''E'') 0 []])
         = Inr (py_round3 (float_div fa (float_sum fa [1/16, 0, 0, 0, 0]) 5))"
    by (simp add: calculate_statistics_def Let_def ebind_def example_content_def
          sentiment_step_def content_times_def make_date_range_def)
  then show ?thesis
    by (simp only: assms py_round3_double_above_tie)
qed

subsection \<open>Noise removal\<close>

lemma split_on_not_Nil: "split_on sep xs \<noteq> []"
  by (induction xs) (auto split: list.splits)

lemma split_on_no_sep: "l \<in> set (split_on sep xs) \<Longrightarrow> sep \<notin> set l"
proof (induction xs arbitrary: l)
  case Nil
  then show ?case by simp
next
  case (Cons x xs)
  show ?case
  proof (cases "x = sep")
    case True
    with Cons show ?thesis by auto
  next
    case False
    obtain h t where ht: "split_on sep xs = h # t"
      using split_on_not_Nil [of sep xs] by (cases "split_on sep xs") auto
    with Cons.prems False have "l = x # h \<or> l \<in> set t" by simp
    then show ?thesis
    proof
      assume "l = x # h"
      moreover from ht Cons.IH [of h] have "sep \<notin> set h" by simp
      ultimately show ?thesis using False by auto
    next
      assume "l \<in> set t"
      with ht Cons.IH [of l] show ?thesis by simp
    qed
  qed
qed

lemma split_on_plain: "sep \<notin> set l \<Longrightarrow> split_on sep l = [l]"
  by (induction l) auto

lemma split_on_append: "sep \<notin> set l \<Longrightarrow> split_on sep (l @ sep # rest) = l # split_on sep rest"
  by (induction l) auto

lemma split_on_join:
  "ls \<noteq> [] \<Longrightarrow> \<forall>l \<in> set ls. sep \<notin> set l \<Longrightarrow> split_on sep (py_join [sep] ls) = ls"
proof (induction "[sep]" ls rule: py_join.induct)
  case 1
  then show ?case by simp
next
  case (2 l)
  then show ?case by (simp add: split_on_plain)
next
  case (3 l v va)
  then show ?case by (simp add: split_on_append)
qed

lemma py_strip_subset: "set (py_strip rt s) \<subseteq> set s"
proof -
  have "set (py_strip rt s) \<subseteq> set (rev (dropWhile (ch_isspace rt) s))"
    unfolding py_strip_def using set_dropWhileD by fastforce
  also have "\<dots> \<subseteq> set s"
    using set_dropWhileD by fastforce
  finally show ?thesis .
qed

lemma keep_line_iff:
  "keep_line rt l \<longleftrightarrow> length l > 10 \<or> (\<exists>c \<in> set l. \<not> ch_isdigit rt c)"
  by (auto simp: keep_line_def py_isdigit_def list_all_iff)

lemma cleaned_lines_no_newline: "l \<in> set (cleaned_lines rt text0) \<Longrightarrow> 10 \<notin> set l"
proof -
  assume "l \<in> set (cleaned_lines rt text0)"
  then obtain l0 where l0: "l0 \<in> set (split_on 10 (denoised text0))" "l = py_strip rt l0"
    by (auto simp: cleaned_lines_def)
  from split_on_no_sep [OF l0(1)] py_strip_subset [of rt l0] l0(2) show ?thesis by auto
qed

lemma remove_noise_lines:
  assumes "cleaned_lines rt text0 \<noteq> []"
  shows "split_on 10 (remove_noise rt text0) = cleaned_lines rt text0"
proof -
  have "text0 \<noteq> []"
  proof
    assume "text0 = []"
    then have "cleaned_lines rt text0 = []"
      by (simp add: cleaned_lines_def denoised_def noise_words_def py_strip_def keep_line_def)
    with assms show False by simp
  qed
  then have "remove_noise rt text0 = py_join [10] (cleaned_lines rt text0)"
    by (simp add: remove_noise_def)
  with assms cleaned_lines_no_newline [of _ rt text0] show ?thesis
    by (simp add: split_on_join)
qed

lemma remove_noise_empty: "cleaned_lines rt text0 = [] \<Longrightarrow> remove_noise rt text0 = []"
  by (simp add: remove_noise_def)

text \<open>
  Claim C7, as the code has it. A stripped line is kept exactly when it is longer than 10
  characters or contains a character that is not a digit; so a line that is dropped has
  at most 10 characters and no character other than digits (it may be empty), and no line
  with a letter in it is dropped. The lines of an output that is not empty are the kept
  lines, each longer than 10 characters or with a character that is not a digit in it.
\<close>

theorem remove_noise_drops_only_digit_lines:
  "cleaned_lines rt text0 =
     filter (\<lambda>l. length l > 10 \<or> (\<exists>c \<in> set l. \<not> ch_isdigit rt c))
            (map (py_strip rt) (split_on 10 (denoised text0)))
   \<and> (\<forall>l \<in> set (map (py_strip rt) (split_on 10 (denoised text0))).
         l \<notin> set (cleaned_lines rt text0) \<longrightarrow> length l \<le> 10 \<and> (\<forall>c \<in> set l. ch_isdigit rt c))
   \<and> (cleaned_lines rt text0 \<noteq> [] \<longrightarrow>
         split_on 10 (remove_noise rt text0) = cleaned_lines rt text0)
   \<and> (cleaned_lines rt text0 = [] \<longrightarrow> remove_noise rt text0 = [])
   \<and> (\<forall>l \<in> set (split_on 10 (remove_noise rt text0)).
         remove_noise rt text0 \<noteq> [] \<longrightarrow>
         length l > 10 \<or> (\<exists>c \<in> set l. \<not> ch_isdigit rt c))"
proof -
  have a: "cleaned_lines rt text0 =
     filter (\<lambda>l. length l > 10 \<or> (\<exists>c \<in> set l. \<not> ch_isdigit rt c))
            (map (py_strip rt) (split_on 10 (denoised text0)))"
    unfolding cleaned_lines_def by (rule filter_cong) (simp_all add: keep_line_iff)
  have b: "\<forall>l \<in> set (map (py_strip rt) (split_on 10 (denoised text0))).
         l \<notin> set (cleaned_lines rt text0) \<longrightarrow> length l \<le> 10 \<and> (\<forall>c \<in> set l. ch_isdigit rt c)"
    unfolding a by auto
  have c: "cleaned_lines rt text0 \<noteq> [] \<longrightarrow>
         split_on 10 (remove_noise rt text0) = cleaned_lines rt text0"
    using remove_noise_lines by blast
  have d: "cleaned_lines rt text0 = [] \<longrightarrow> remove_noise rt text0 = []"
    using remove_noise_empty by blast
  have e: "\<forall>l \<in> set (split_on 10 (remove_noise rt text0)).
         remove_noise rt text0 \<noteq> [] \<longrightarrow>
         length l > 10 \<or> (\<exists>c \<in> set l. \<not> ch_isdigit rt c)"
  proof (intro ballI impI)
    fix l assume l: "l \<in> set (split_on 10 (remove_noise rt text0))"
      and n: "remove_noise rt text0 \<noteq> []"
    from n d have "cleaned_lines rt text0 \<noteq> []" by blast
    with c l have "l \<in> set (cleaned_lines rt text0)" by simp
    then show "length l > 10 \<or> (\<exists>c \<in> set l. \<not> ch_isdigit rt c)"
      unfolding a by simp
  qed
  from a b c d e show ?thesis by blast
qed

lemma denoised_example:
  "denoised (asc ''Home'' @ [10] @ asc ''42'' @ [10] @ asc ''---'')
     = asc ''Home'' @ [10] @ asc ''42'' @ [10] @ asc ''---''"
  by (simp add: denoised_def noise_words_def asc_def prefix_code)

lemma cleaned_lines_example:
  "cleaned_lines ascii_runtime (asc ''Home'' @ [10] @ asc ''42'' @ [10] @ asc ''---'')
     = [asc ''Home'', asc ''---'']"
  unfolding cleaned_lines_def denoised_example
  by (simp add: asc_def keep_line_def py_isdigit_def py_strip_def ascii_runtime_def)

theorem remove_noise_drops_only_digit_lines_witness:
  "cleaned_lines ascii_runtime (asc ''Home'' @ [10] @ asc ''42'' @ [10] @ asc ''---'')
     = [asc ''Home'', asc ''---'']
   \<and> asc ''42'' \<in> set (map (py_strip ascii_runtime)
        (split_on 10 (denoised (asc ''Home'' @ [10] @ asc ''42'' @ [10] @ asc ''---''))))
   \<and> asc ''42'' \<notin> set (cleaned_lines ascii_runtime
        (asc ''Home'' @ [10] @ asc ''42'' @ [10] @ asc ''---''))
   \<and> list_all (ch_isdigit ascii_runtime) (asc ''42'')
   \<and> split_on 10 (remove_noise ascii_runtime
        (asc ''Home'' @ [10] @ asc ''42'' @ [10] @ asc ''---''))
     = [asc ''Home'', asc ''---'']"
proof -
  have m: "asc ''42'' \<in> set (map (py_strip ascii_runtime)
        (split_on 10 (denoised (asc ''Home'' @ [10] @ asc ''42'' @ [10] @ asc ''---''))))"
    unfolding denoised_example
    by (simp add: asc_def py_strip_def ascii_runtime_def)
  have n: "asc ''42'' \<notin> set (cleaned_lines ascii_runtime
        (asc ''Home'' @ [10] @ asc ''42'' @ [10] @ asc ''---''))"
    unfolding cleaned_lines_example by (simp add: asc_def)
  have p: "cleaned_lines ascii_runtime (asc ''Home'' @ [10] @ asc ''42'' @ [10] @ asc ''---'')
            \<noteq> []"
    unfolding cleaned_lines_example by simp
  note t = remove_noise_drops_only_digit_lines
         [of ascii_runtime "asc ''Home'' @ [10] @ asc ''42'' @ [10] @ asc ''---''"]
  from t have b: "\<forall>l \<in> set (map (py_strip ascii_runtime)
        (split_on 10 (denoised (asc ''Home'' @ [10] @ asc ''42'' @ [10] @ asc ''---'')))).
         l \<notin> set (cleaned_lines ascii_runtime
                      (asc ''Home'' @ [10] @ asc ''42'' @ [10] @ asc ''---'')) \<longrightarrow>
         length l \<le> 10 \<and> (\<forall>c \<in> set l. ch_isdigit ascii_runtime c)"
    by (elim conjE)
  from b m n have "\<forall>c \<in> set (asc ''42''). ch_isdigit ascii_runtime c"
    by blast
  then have d: "list_all (ch_isdigit ascii_runtime) (asc ''42'')"
    by (simp only: list_all_iff)
  from t have c: "cleaned_lines ascii_runtime
                      (asc ''Home'' @ [10] @ asc ''42'' @ [10] @ asc ''---'') \<noteq> [] \<longrightarrow>
         split_on 10 (remove_noise ascii_runtime
                      (asc ''Home'' @ [10] @ asc ''42'' @ [10] @ asc ''---''))
         = cleaned_lines ascii_runtime (asc ''Home'' @ [10] @ asc ''42'' @ [10] @ asc ''---'')"
    by (elim conjE)
  from c p have s: "split_on 10 (remove_noise ascii_runtime
                      (asc ''Home'' @ [10] @ asc ''42'' @ [10] @ asc ''---''))
         = [asc ''Home'', asc ''---'']"
    unfolding cleaned_lines_example by blast
  from cleaned_lines_example m n d s show ?thesis
    by (intro conjI)
qed

text \<open>
  The claim as stated fails on the text of three hyphens: the output has the one line of
  three hyphens, which is not longer than 10 characters and whose only character,
  U+002D, is not alphabetic.
\<close>

lemma denoised_dashes: "denoised (asc ''---'') = asc ''---''"
  by (simp add: denoised_def noise_words_def asc_def prefix_code)


theorem remove_noise_short_line_counterexample:
  "remove_noise ascii_runtime (asc ''---'') = asc ''---''
   \<and> split_on 10 (asc ''---'') = [asc ''---'']
   \<and> length (asc ''---'') = 3
   \<and> set (asc ''---'') = {45}"
  unfolding remove_noise_def cleaned_lines_def denoised_dashes
  by (simp add: asc_def keep_line_def py_isdigit_def py_strip_def ascii_runtime_def)

subsection \<open>Filters\<close>

lemma nested_missing_key:
  assumes "ca (VDict []) (asc ''views'') = None"
  shows "get_nested_value ca (content_obj (example_content (asc ''a'') (asc ''A'') 0.9 []))
           (asc ''engagement_metrics.views'') VNone = VNone"
proof -
  have p: "split_on 46 (asc ''engagement_metrics.views'')
             = [asc ''engagement_metrics'', asc ''views'']"
    by (simp add: asc_def)
  have g: "py_getattr ca (content_obj (example_content (asc ''a'') (asc ''A'') 0.9 []))
             (asc ''engagement_metrics'') = Some (VDict [])"
    by (simp add: py_getattr_def content_obj_def example_content_def asc_def opt_dict_def)
  have h: "py_getattr ca (VDict []) (asc ''views'') = None"
    using assms by (simp add: py_getattr_def)
  show ?thesis
    unfolding get_nested_value_def p by (simp add: g h dict_get_def)
qed

lemma nested_unknown_field:
  assumes "ca (content_obj c) (asc ''view_count'') = None"
  shows "get_nested_value ca (content_obj c) (asc ''view_count'') dflt = dflt"
proof -
  have p: "split_on 46 (asc ''view_count'') = [asc ''view_count'']"
    by (simp add: asc_def)
  have h: "py_getattr ca (content_obj c) (asc ''view_count'') = None"
    using assms by (simp add: py_getattr_def content_obj_def asc_def)
  have o: "\<exists>attrs. content_obj c = VObj attrs"
    by (simp add: content_obj_def)
  show ?thesis
    unfolding get_nested_value_def p using h o by auto
qed

text \<open>A path part that names a method of \<^verbatim>\<open>dict\<close> gives the bound method, not an item.\<close>

lemma nested_method_name:
  assumes "ca (VDict d) part = Some (VMethod part)"
  shows "nested_loop ca (VDict d) [part] dflt = VMethod part"
  using assms by (simp add: py_getattr_def)

lemma nested_importance_score:
  "get_nested_value ca (content_obj c) (asc ''importance_score'') dflt
     = VNum (importance_score c)"
  by (simp add: get_nested_value_def py_getattr_def content_obj_def asc_def)

text \<open>
  On a field that every document has, a comparison filter selects exactly the documents
  that satisfy it. Of two operators given for one field only the first of the chain
  \<^verbatim>\<open>$gte\<close>, \<^verbatim>\<open>$lte\<close>, \<^verbatim>\<open>$in\<close> is applied.
\<close>

lemma filter_e_total:
  "filter_e (\<lambda>c. Inr (p c)) cs = Inr (filter p cs)"
  by (induction cs) (simp_all add: ebind_def)

lemma apply_filters_importance_gte:
  "apply_filters ca contents [(asc ''importance_score'', VDict [(asc ''$gte'', VNum t)])]
     = Inr (filter (\<lambda>c. importance_score c \<ge> t) contents)"
proof -
  have k: "map_of [(asc ''$gte'', VNum t)] (asc ''$gte'') = Some (VNum t)"
    by (simp add: asc_def)
  show ?thesis
    by (simp add: apply_condition_def k nested_importance_score py_ge_def filter_e_total
          ebind_def)
qed

lemma apply_filters_second_operator_ignored:
  "apply_filters ca contents
     [(asc ''importance_score'', VDict [(asc ''$gte'', VNum lo), (asc ''$lte'', VNum hi)])]
     = Inr (filter (\<lambda>c. importance_score c \<ge> lo) contents)"
proof -
  have k: "map_of [(asc ''$gte'', VNum lo), (asc ''$lte'', VNum hi)] (asc ''$gte'')
             = Some (VNum lo)"
    by (simp add: asc_def)
  show ?thesis
    by (simp add: apply_condition_def k nested_importance_score py_ge_def filter_e_total
          ebind_def)
qed

text \<open>
  A comparison with a missing field raises, whatever the attributes of the classes are, as
  long as \<^verbatim>\<open>views\<close> is not an attribute of \<^verbatim>\<open>dict\<close> and \<^verbatim>\<open>view_count\<close> is not one
  of the model class; neither is the name of a method or property.
\<close>

lemma missing_field_comparison_raises:
  assumes "ca (VDict []) (asc ''views'') = None"
    and "ca (content_obj (example_content (asc ''a'') (asc ''A'') 0.9 [])) (asc ''view_count'')
           = None"
  shows "apply_filters ca [example_content (asc ''a'') (asc ''A'') 0.9 []]
       [(asc ''engagement_metrics.views'', VDict [(asc ''$gte'', VNum 100)])] = Inl TypeError
   \<and> apply_filters ca [example_content (asc ''a'') (asc ''A'') 0.9 []]
       [(asc ''view_count'', VDict [(asc ''$lte'', VNum 100)])] = Inl TypeError
   \<and> apply_filters ca [example_content (asc ''a'') (asc ''A'') 0.9 []]
       [(asc ''view_count'', VList [VStr (asc ''x'')])] = Inr []
   \<and> apply_filters ca [example_content (asc ''a'') (asc ''A'') 0.9 []]
       [(asc ''view_count'', VNum 1)] = Inr []"
proof -
  have k: "map_of [(asc ''$gte'', VNum 100)] (asc ''$gte'') = Some (VNum 100)"
      "map_of [(asc ''$lte'', VNum 100)] (asc ''$gte'') = None"
      "map_of [(asc ''$lte'', VNum 100)] (asc ''$lte'') = Some (VNum 100)"
    by (simp_all add: asc_def)
  have a: "get_nested_value ca (content_obj (example_content (asc ''a'') (asc ''A'') 0.9 []))
             (asc ''engagement_metrics.views'') VNone = VNone"
    using assms(1) by (rule nested_missing_key)
  have b: "get_nested_value ca (content_obj (example_content (asc ''a'') (asc ''A'') 0.9 []))
             (asc ''view_count'') dflt = dflt" for dflt
    using assms(2) by (rule nested_unknown_field)
  show ?thesis
    by (simp add: apply_condition_def k a b ebind_def py_ge_def py_in_def)
qed

text \<open>
  Claim C2 says that a document whose referenced field is missing is left out and that no
  error is raised. The code does so for a list condition (its default is the empty list)
  and for an equality condition, but not for \<^verbatim>\<open>$gte\<close> and \<^verbatim>\<open>$lte\<close>: the missing
  value is \<^verbatim>\<open>None\<close>, and comparing it with the threshold raises \<open>TypeError\<close> out of
  \<open>apply_filters\<close>. The document below is one as \<open>process_content\<close> emits it, with an
  empty dictionary of engagement metrics.
\<close>

theorem apply_filters_missing_field_raises:
  "apply_filters no_class_attrs [example_content (asc ''a'') (asc ''A'') 0.9 []]
       [(asc ''engagement_metrics.views'', VDict [(asc ''$gte'', VNum 100)])] = Inl TypeError
   \<and> apply_filters no_class_attrs [example_content (asc ''a'') (asc ''A'') 0.9 []]
       [(asc ''view_count'', VDict [(asc ''$lte'', VNum 100)])] = Inl TypeError
   \<and> apply_filters no_class_attrs [example_content (asc ''a'') (asc ''A'') 0.9 []]
       [(asc ''view_count'', VList [VStr (asc ''x'')])] = Inr []
   \<and> apply_filters no_class_attrs [example_content (asc ''a'') (asc ''A'') 0.9 []]
       [(asc ''view_count'', VNum 1)] = Inr []"
  by (rule missing_field_comparison_raises) (simp_all add: no_class_attrs_def)

subsection \<open>Deduplication in the processor\<close>

lemma key_prefixes_differ: "url_key co u \<noteq> hash_key h"
  by (simp add: url_key_def hash_key_def asc_def)

lemma url_key_inject: "url_key co u1 = url_key co u2 \<longleftrightarrow> md5_hex co u1 = md5_hex co u2"
  by (simp add: url_key_def)

lemma process_content_emits:
  assumes "cd_title d \<noteq> []"
    and "\<not> is_already_processed co rc (cd_url d)"
    and "50 \<le> length (cr_cleaned_content (clean co (case cd_content d of None \<Rightarrow> [] | Some b \<Rightarrow> b)))"
    and "build_content co rt d (clean co (case cd_content d of None \<Rightarrow> [] | Some b \<Rightarrow> b)) = Inr pc"
  shows "process_content co rt rc d =
           (Some pc, mark_as_processed co rc (cd_url d)
              (calculate_content_hash co rt
                 (cr_cleaned_content (clean co (case cd_content d of None \<Rightarrow> [] | Some b \<Rightarrow> b)))))"
  using assms by (simp add: process_content_def Let_def)

lemma process_content_url_seen:
  "is_already_processed co rc (cd_url d) \<Longrightarrow> process_content co rt rc d = (None, rc)"
  by (simp add: process_content_def)

lemma mark_then_seen:
  "u \<noteq> [] \<Longrightarrow> is_already_processed co (mark_as_processed co (Some c) u h) u"
  by (simp add: is_already_processed_def mark_as_processed_def cache_exists_def cache_set_def
        key_prefixes_differ)

lemma mark_other_url_unseen:
  assumes "md5_hex co u1 \<noteq> md5_hex co u2" and "\<not> cache_exists c (url_key co u2)"
  shows "\<not> is_already_processed co (mark_as_processed co (Some c) u1 h) u2"
  using assms key_prefixes_differ [of co u2 h]
  by (auto simp: is_already_processed_def mark_as_processed_def cache_exists_def cache_set_def
        url_key_inject)

lemma mark_hash_present:
  "u \<noteq> [] \<Longrightarrow>
     \<exists>c'. mark_as_processed co (Some c) u h = Some c' \<and> cache_exists c' (hash_key h)"
  by (simp add: mark_as_processed_def cache_exists_def cache_set_def)

text \<open>
  A document with the URL of a document that was emitted is rejected by the URL check, and
  the cache is left as it was.
\<close>

lemma process_content_same_url_once:
  assumes "cd_url d1 \<noteq> []" and "cd_url d2 = cd_url d1"
    and "process_content co rt (Some c) d1 = (Some pc, rc1)"
  shows "process_content co rt rc1 d2 = (None, rc1)"
proof -
  let ?body = "case cd_content d1 of None \<Rightarrow> [] | Some b \<Rightarrow> b"
  from assms(3) have "rc1 = mark_as_processed co (Some c) (cd_url d1)
       (calculate_content_hash co rt (cr_cleaned_content (clean co ?body)))"
    by (auto simp: process_content_def Let_def split: if_splits sum.splits)
  with mark_then_seen [OF assms(1)] assms(2) have "is_already_processed co rc1 (cd_url d2)"
    by simp
  then show ?thesis by (rule process_content_url_seen)
qed

text \<open>
  Two documents with one body and different URLs: the first call stores the content hash,
  the second call never looks it up and emits the second document too. \<open>is_duplicate\<close>
  is the function that does look the content hash up.
\<close>

lemma process_content_content_hash_unchecked:
  assumes t: "cd_title d1 \<noteq> []" "cd_title d2 \<noteq> []"
    and u: "cd_url d1 \<noteq> []" "md5_hex co (cd_url d1) \<noteq> md5_hex co (cd_url d2)"
    and fresh: "\<not> cache_exists c (url_key co (cd_url d1))"
               "\<not> cache_exists c (url_key co (cd_url d2))"
    and same: "cd_content d1 = Some body" "cd_content d2 = Some body"
    and len: "50 \<le> length (cr_cleaned_content (clean co body))"
    and b: "build_content co rt d1 (clean co body) = Inr p1"
           "build_content co rt d2 (clean co body) = Inr p2"
  shows "\<exists>c1 rc2.
           process_content co rt (Some c) d1 = (Some p1, Some c1)
           \<and> cache_exists c1 (hash_key (calculate_content_hash co rt
                                 (cr_cleaned_content (clean co body))))
           \<and> process_content co rt (Some c1) d2 = (Some p2, rc2)"
proof -
  let ?h = "calculate_content_hash co rt (cr_cleaned_content (clean co body))"
  have n1: "\<not> is_already_processed co (Some c) (cd_url d1)"
    using fresh(1) by (simp add: is_already_processed_def)
  from process_content_emits [of d1 co "Some c" rt p1] t(1) n1 same(1) len b(1)
  have e1: "process_content co rt (Some c) d1
              = (Some p1, mark_as_processed co (Some c) (cd_url d1) ?h)"
    by simp
  from mark_hash_present [OF u(1), of co c ?h] obtain c1 where
    c1: "mark_as_processed co (Some c) (cd_url d1) ?h = Some c1" "cache_exists c1 (hash_key ?h)"
    by blast
  from mark_other_url_unseen [OF u(2) fresh(2), of ?h] c1(1)
  have n2: "\<not> is_already_processed co (Some c1) (cd_url d2)"
    by simp
  from process_content_emits [of d2 co "Some c1" rt p2] t(2) n2 same(2) len b(2)
  have e2: "process_content co rt (Some c1) d2
              = (Some p2, mark_as_processed co (Some c1) (cd_url d2) ?h)"
    by simp
  from e1 c1 e2 show ?thesis by simp
qed

lemma is_duplicate_second_call:
  "fst (is_duplicate co rt (snd (is_duplicate co rt (Some c) content)) content)"
  by (simp add: is_duplicate_def Let_def cache_exists_def cache_set_def)

lemma build_content_ok:
  assumes "extract_keywords co (cr_cleaned_content cl) 20 (asc ''AI'') = Inr kws"
    and "extract_entities co (cr_cleaned_content cl) = Inr es"
    and "extract_topics co (cr_cleaned_content cl) = Inr tps"
  shows "\<exists>p. build_content co rt d cl = Inr p \<and> cleaned_content p = cr_cleaned_content cl"
  using assms by (simp add: build_content_def Let_def ebind_def)

text \<open>
  Claim C1 says that of two documents with the same whitespace-normalized cleaned content
  under different URLs exactly one is emitted. Here the two documents have one body of 60
  letters and the URLs \<^verbatim>\<open>http://a\<close> and \<^verbatim>\<open>http://b\<close>, the cache backend is live
  and empty at the start, and both calls emit a document with that body as its cleaned
  content: \<open>process_content\<close> computes the content hash and stores it, but does not check
  it.
\<close>

theorem process_content_same_content_emitted_twice:
  "map_option cleaned_content
     (fst (process_content example_collaborators ascii_runtime (Some Map.empty)
             (example_data (asc ''1'') (asc ''First'') (asc ''http://a'') (replicate 60 97))))
     = Some (replicate 60 97)
   \<and> map_option cleaned_content
     (fst (process_content example_collaborators ascii_runtime
             (snd (process_content example_collaborators ascii_runtime (Some Map.empty)
                (example_data (asc ''1'') (asc ''First'') (asc ''http://a'') (replicate 60 97))))
             (example_data (asc ''2'') (asc ''Second'') (asc ''http://b'') (replicate 60 97))))
     = Some (replicate 60 97)"
proof -
  let ?co = example_collaborators
  let ?d1 = "example_data (asc ''1'') (asc ''First'') (asc ''http://a'') (replicate 60 97)"
  let ?d2 = "example_data (asc ''2'') (asc ''Second'') (asc ''http://b'') (replicate 60 97)"
  let ?body = "replicate 60 (97::nat)"
  have cl: "cr_cleaned_content (clean ?co ?body) = ?body"
    by (simp add: example_collaborators_def)
  obtain p1 where p1: "build_content ?co ascii_runtime ?d1 (clean ?co ?body) = Inr p1"
      "cleaned_content p1 = cr_cleaned_content (clean ?co ?body)"
    using build_content_ok [of ?co "clean ?co ?body" "[]" "[]" "[]" ascii_runtime ?d1]
    by (auto simp: example_collaborators_def)
  obtain p2 where p2: "build_content ?co ascii_runtime ?d2 (clean ?co ?body) = Inr p2"
      "cleaned_content p2 = cr_cleaned_content (clean ?co ?body)"
    using build_content_ok [of ?co "clean ?co ?body" "[]" "[]" "[]" ascii_runtime ?d2]
    by (auto simp: example_collaborators_def)
  have t: "cd_title ?d1 \<noteq> []" "cd_title ?d2 \<noteq> []"
    by (simp_all add: example_data_def asc_def)
  have u: "cd_url ?d1 \<noteq> []" "md5_hex ?co (cd_url ?d1) \<noteq> md5_hex ?co (cd_url ?d2)"
    by (simp_all add: example_data_def example_collaborators_def asc_def)
  have fresh: "\<not> cache_exists Map.empty (url_key ?co (cd_url ?d1))"
      "\<not> cache_exists Map.empty (url_key ?co (cd_url ?d2))"
    by (simp_all add: cache_exists_def)
  have same: "cd_content ?d1 = Some ?body" "cd_content ?d2 = Some ?body"
    by (simp_all add: example_data_def)
  have len: "50 \<le> length (cr_cleaned_content (clean ?co ?body))"
    unfolding cl by simp
  from process_content_content_hash_unchecked
         [OF t u fresh same len p1(1) p2(1)]
  obtain c1 rc2 where
    r: "process_content ?co ascii_runtime (Some Map.empty) ?d1 = (Some p1, Some c1)"
       "process_content ?co ascii_runtime (Some c1) ?d2 = (Some p2, rc2)"
    by blast
  from r p1(2) p2(2) cl show ?thesis by simp
qed

end
